theory Spec2Isabelle
  imports Complex_Main "HOL-Library.AList"
begin

section \<open>Values, documents and the document store\<close>

text \<open>
  The handlers of \<^verbatim>\<open>main.py\<close> work on Python dictionaries that they hand to and receive
  from the document store. A dictionary is an association list in insertion order;
  \<open>AList.update\<close> is Python's \<^verbatim>\<open>d[k] = v\<close> (overwrite in place, else append) and
  \<open>AList.delete\<close> is \<^verbatim>\<open>d.pop(k, None)\<close>. The type parameter \<open>'o\<close> is the store's native
  identifier type (\<^verbatim>\<open>bson.ObjectId\<close>); a \<^verbatim>\<open>datetime\<close> is a point on the UTC time line,
  counted in microseconds.
\<close>

type_synonym datetime = int

datatype 'o bson =
    Null
  | Str string
  | Integer int
  | Datetime datetime
  | Oid 'o
  | Array "'o bson list"
  | Dict "(string \<times> 'o bson) list"

type_synonym 'o dict = "(string \<times> 'o bson) list"

text \<open>
  A stored document always carries the key \<^verbatim>\<open>_id\<close>, which the store assigns on insertion.
  The model keeps it apart from the other keys: \<open>doc_id\<close> is the value under \<^verbatim>\<open>_id\<close> and
  \<open>body\<close> is the dictionary of all other keys, so that \<^verbatim>\<open>d.pop("_id")\<close> returns \<open>doc_id d\<close>
  and leaves \<open>body d\<close>.
\<close>

record 'o document =
  doc_id :: 'o
  body :: "'o dict"

text \<open>\<^verbatim>\<open>db\<close> maps a collection name to the documents of that collection, oldest first.\<close>

type_synonym 'o database = "string \<Rightarrow> 'o document list"

text \<open>
  A validation error of the entity layer: where it is (\<^verbatim>\<open>loc\<close>) and which constraint is
  violated (\<^verbatim>\<open>type\<close>).
\<close>

datatype loc_item = Key string | Index nat

type_synonym verror = "loc_item list \<times> string"

text \<open>
  Every \<^verbatim>\<open>raise\<close> of the handlers is an \<^verbatim>\<open>HTTPException(status_code, detail)\<close>. A request body
  that fails validation never reaches its handler: the framework answers with the list of
  violations (\<open>RequestValidationError\<close>). A \<^verbatim>\<open>$push\<close> on a key that holds something other
  than an array is refused by the store (\<open>WriteError\<close>), which no handler catches.
\<close>

datatype error =
    HTTPException nat string
  | RequestValidationError "verror list"
  | WriteError

text \<open>
  The external collaborators of the handlers, taken as parameters:
  \<open>ObjectId\<close> is \<^verbatim>\<open>bson.ObjectId(id_str)\<close> (\<open>None\<close> where it raises),
  \<open>oid_str\<close> is \<^verbatim>\<open>str\<close> on an identifier,
  \<open>pwd_hash\<close> and \<open>pwd_verify\<close> are \<^verbatim>\<open>pwd_context.hash\<close> and \<^verbatim>\<open>pwd_context.verify\<close>,
  \<open>sort_docs key direction\<close> is the cursor's \<^verbatim>\<open>.sort(key, direction)\<close>.
\<close>

record 'o collaborators =
  ObjectId :: "string \<Rightarrow> 'o option"
  oid_str :: "'o \<Rightarrow> string"
  pwd_hash :: "string \<Rightarrow> string"
  pwd_verify :: "string \<Rightarrow> 'o bson \<Rightarrow> bool"
  sort_docs :: "string \<Rightarrow> int \<Rightarrow> 'o document list \<Rightarrow> 'o document list"

subsection \<open>Collection operations\<close>

text \<open>
  Modelled from the spec: the Document Store Adapter (\<^verbatim>\<open>database.py\<close> and the collections
  of \<^verbatim>\<open>db\<close>), which is not among the source files. Per collection it provides insert, find
  with an equality filter, count, and an atomic update of the first matching document.
  A filter \<^verbatim>\<open>{k: v, ...}\<close> matches a document whose value under every \<open>k\<close> equals \<open>v\<close>.
\<close>

definition lookup :: "'o document \<Rightarrow> string \<Rightarrow> 'o bson option" where
  "lookup d k = (if k = ''_id'' then Some (Oid (doc_id d)) else map_of (body d) k)"

definition matches :: "'o dict \<Rightarrow> 'o document \<Rightarrow> bool" where
  "matches query d = list_all (\<lambda>(k, v). lookup d k = Some v) query"

definition find_docs :: "'o document list \<Rightarrow> 'o dict \<Rightarrow> 'o document list" where
  "find_docs coll query = filter (matches query) coll"

definition find_one :: "'o document list \<Rightarrow> 'o dict \<Rightarrow> 'o document option" where
  "find_one coll query = List.find (matches query) coll"

definition count_documents :: "'o document list \<Rightarrow> 'o dict \<Rightarrow> int" where
  "count_documents coll query = int (length (find_docs coll query))"

text \<open>\<^verbatim>\<open>insert_one(doc).inserted_id\<close>: the driver generates the identifier \<open>new_id\<close>.\<close>

definition insert_one :: "'o document list \<Rightarrow> 'o \<Rightarrow> 'o dict \<Rightarrow> 'o \<times> 'o document list" where
  "insert_one coll new_id doc = (new_id, coll @ [\<lparr>doc_id = new_id, body = doc\<rparr>])"

text \<open>
  \<^verbatim>\<open>update_one(filter, {"$push": {...}, "$set": {...}})\<close> changes the first matching
  document and reports \<^verbatim>\<open>matched_count\<close>. \<^verbatim>\<open>$push\<close> appends to the array under the key
  (creating it when the key is absent); \<^verbatim>\<open>$set\<close> overwrites the key.
\<close>

record 'o update_spec =
  op_push :: "'o dict"
  op_set :: "'o dict"

fun apply_push :: "'o dict \<Rightarrow> 'o dict \<Rightarrow> 'o dict option" where
  "apply_push [] doc = Some doc"
| "apply_push ((k, v) # ops) doc =
     (case map_of doc k of
        None \<Rightarrow> apply_push ops (AList.update k (Array [v]) doc)
      | Some (Array xs) \<Rightarrow> apply_push ops (AList.update k (Array (xs @ [v])) doc)
      | Some _ \<Rightarrow> None)"

fun apply_set :: "'o dict \<Rightarrow> 'o dict \<Rightarrow> 'o dict" where
  "apply_set [] doc = doc"
| "apply_set ((k, v) # ops) doc = apply_set ops (AList.update k v doc)"

definition apply_update :: "'o update_spec \<Rightarrow> 'o dict \<Rightarrow> 'o dict option" where
  "apply_update u doc = map_option (apply_set (op_set u)) (apply_push (op_push u) doc)"

fun update_one ::
  "'o document list \<Rightarrow> 'o dict \<Rightarrow> 'o update_spec \<Rightarrow> error + (int \<times> 'o document list)" where
  "update_one [] query u = Inr (0, [])"
| "update_one (d # ds) query u =
     (if matches query d
      then (case apply_update u (body d) of
              None \<Rightarrow> Inl WriteError
            | Some b \<Rightarrow> Inr (1, d\<lparr>body := b\<rparr> # ds))
      else (case update_one ds query u of
              Inl e \<Rightarrow> Inl e
            | Inr (n, ds') \<Rightarrow> Inr (n, d # ds')))"

section \<open>Entity validation (schemas.py)\<close>

text \<open>
  A key of a decoded request body is absent, \<^verbatim>\<open>null\<close>, or holds a value of the field's type.
\<close>

datatype 'a field = Absent | JNull | Given 'a

text \<open>
  The outcome of validating one field is its value or its violations; \<open>ap\<close> builds the
  entity from the fields in declaration order and, when any field fails, collects the
  violations of all of them.
\<close>

definition ap :: "(verror list + ('a \<Rightarrow> 'b)) \<Rightarrow> (verror list + 'a) \<Rightarrow> verror list + 'b" where
  "ap f x =
     (case f of
        Inr g \<Rightarrow> (case x of Inr a \<Rightarrow> Inr (g a) | Inl e2 \<Rightarrow> Inl e2)
      | Inl e1 \<Rightarrow> (case x of Inr a \<Rightarrow> Inl e1 | Inl e2 \<Rightarrow> Inl (e1 @ e2)))"

definition errs :: "verror list + 'a \<Rightarrow> verror list" where
  "errs r = (case r of Inl es \<Rightarrow> es | Inr a \<Rightarrow> [])"

definition at_loc :: "loc_item list \<Rightarrow> verror list + 'a \<Rightarrow> verror list + 'a" where
  "at_loc pre r = (case r of Inl es \<Rightarrow> Inl (map (\<lambda>(l, t). (pre @ l, t)) es) | Inr a \<Rightarrow> Inr a)"

text \<open>\<^verbatim>\<open>k: str\<close>\<close>

definition str_required :: "string \<Rightarrow> string field \<Rightarrow> verror list + string" where
  "str_required k f =
     (case f of
        Absent \<Rightarrow> Inl [([Key k], ''missing'')]
      | JNull \<Rightarrow> Inl [([Key k], ''string_type'')]
      | Given s \<Rightarrow> Inr s)"

text \<open>\<^verbatim>\<open>k: Optional[str] = None\<close>, \<^verbatim>\<open>k: Optional[datetime] = None\<close>\<close>

definition optional :: "'a field \<Rightarrow> verror list + 'a option" where
  "optional f = (case f of Absent \<Rightarrow> Inr None | JNull \<Rightarrow> Inr None | Given x \<Rightarrow> Inr (Some x))"

text \<open>\<^verbatim>\<open>k: Literal[...] = default\<close>\<close>

definition literal_default :: "string \<Rightarrow> string list \<Rightarrow> string \<Rightarrow> string field \<Rightarrow> verror list + string" where
  "literal_default k allowed dflt f =
     (case f of
        Absent \<Rightarrow> Inr dflt
      | JNull \<Rightarrow> Inl [([Key k], ''literal_error'')]
      | Given s \<Rightarrow> if s \<in> set allowed then Inr s else Inl [([Key k], ''literal_error'')])"

text \<open>
  \<^verbatim>\<open>k: EmailStr\<close>; \<open>validate_email\<close> is the email validator, an external collaborator that
  returns the normalised address or nothing.
\<close>

definition email_required :: "(string \<Rightarrow> string option) \<Rightarrow> string \<Rightarrow> string field \<Rightarrow> verror list + string" where
  "email_required validate_email k f =
     (case f of
        Absent \<Rightarrow> Inl [([Key k], ''missing'')]
      | JNull \<Rightarrow> Inl [([Key k], ''string_type'')]
      | Given s \<Rightarrow>
          (case validate_email s of
             None \<Rightarrow> Inl [([Key k], ''value_error'')]
           | Some e \<Rightarrow> Inr e))"

text \<open>The constraints \<^verbatim>\<open>ge=lo, le=hi\<close> of an integer field.\<close>

definition ge_le :: "string \<Rightarrow> int \<Rightarrow> int \<Rightarrow> int \<Rightarrow> verror list + int" where
  "ge_le k lo hi x =
     (if x < lo then Inl [([Key k], ''greater_than_equal'')]
      else if hi < x then Inl [([Key k], ''less_than_equal'')]
      else Inr x)"

text \<open>\<^verbatim>\<open>k: int = Field(default, ge=lo, le=hi)\<close>\<close>

definition int_default :: "string \<Rightarrow> int \<Rightarrow> int \<Rightarrow> int \<Rightarrow> int field \<Rightarrow> verror list + int" where
  "int_default k lo hi dflt f =
     (case f of
        Absent \<Rightarrow> Inr dflt
      | JNull \<Rightarrow> Inl [([Key k], ''int_type'')]
      | Given x \<Rightarrow> ge_le k lo hi x)"

text \<open>\<^verbatim>\<open>k: Optional[int] = Field(None, ge=lo, le=hi)\<close>\<close>

definition int_optional :: "string \<Rightarrow> int \<Rightarrow> int \<Rightarrow> int field \<Rightarrow> verror list + int option" where
  "int_optional k lo hi f =
     (case f of
        Absent \<Rightarrow> Inr None
      | JNull \<Rightarrow> Inr None
      | Given x \<Rightarrow> (case ge_le k lo hi x of Inl es \<Rightarrow> Inl es | Inr y \<Rightarrow> Inr (Some y)))"

definition RoleType :: "string list" where
  "RoleType = [''MD'', ''CEO'', ''COO'', ''MANAGER'', ''EMPLOYEE'']"

definition TaskStatus :: "string list" where
  "TaskStatus = [''PENDING'', ''IN_PROGRESS'', ''COMPLETED'']"

subsection \<open>UserRegister and UserLogin\<close>

record UserRegister =
  reg_name :: string
  reg_email :: string
  reg_password :: string
  reg_role :: string
  reg_department_id :: "string option"

record UserRegister_raw =
  reg_name_in :: "string field"
  reg_email_in :: "string field"
  reg_password_in :: "string field"
  reg_role_in :: "string field"
  reg_department_id_in :: "string field"

definition UserRegister_validate ::
  "(string \<Rightarrow> string option) \<Rightarrow> UserRegister_raw \<Rightarrow> verror list + UserRegister" where
  "UserRegister_validate validate_email raw =
     ap (ap (ap (ap (ap
       (Inr (\<lambda>n e p r d. \<lparr>reg_name = n, reg_email = e, reg_password = p, reg_role = r,
                          reg_department_id = d\<rparr>))
       (str_required ''name'' (reg_name_in raw)))
       (email_required validate_email ''email'' (reg_email_in raw)))
       (str_required ''password'' (reg_password_in raw)))
       (literal_default ''role'' RoleType ''EMPLOYEE'' (reg_role_in raw)))
       (optional (reg_department_id_in raw))"

record UserLogin =
  login_email :: string
  login_password :: string

subsection \<open>TaskUpdateEntry\<close>

record TaskUpdateEntry =
  upd_user_id :: string
  upd_note :: "string option"
  upd_progress :: "int option"
  upd_created_at :: "datetime option"

record TaskUpdateEntry_raw =
  upd_user_id_in :: "string field"
  upd_note_in :: "string field"
  upd_progress_in :: "int field"
  upd_created_at_in :: "datetime field"

definition TaskUpdateEntry_validate :: "TaskUpdateEntry_raw \<Rightarrow> verror list + TaskUpdateEntry" where
  "TaskUpdateEntry_validate raw =
     ap (ap (ap (ap
       (Inr (\<lambda>u n p c. \<lparr>upd_user_id = u, upd_note = n, upd_progress = p, upd_created_at = c\<rparr>))
       (str_required ''user_id'' (upd_user_id_in raw)))
       (optional (upd_note_in raw)))
       (int_optional ''progress'' 0 100 (upd_progress_in raw)))
       (optional (upd_created_at_in raw))"

subsection \<open>Task\<close>

record Task =
  task_title :: string
  task_description :: "string option"
  task_assigned_to :: string
  task_assigned_by :: string
  task_department_id :: "string option"
  task_status :: string
  task_due_date :: "datetime option"
  task_progress :: int
  task_updates :: "TaskUpdateEntry list"

record Task_raw =
  task_title_in :: "string field"
  task_description_in :: "string field"
  task_assigned_to_in :: "string field"
  task_assigned_by_in :: "string field"
  task_department_id_in :: "string field"
  task_status_in :: "string field"
  task_due_date_in :: "datetime field"
  task_progress_in :: "int field"
  task_updates_in :: "TaskUpdateEntry_raw list field"

text \<open>The items of \<^verbatim>\<open>updates: List[TaskUpdateEntry]\<close>, from index \<open>i\<close> on.\<close>

fun validate_items :: "nat \<Rightarrow> TaskUpdateEntry_raw list \<Rightarrow> verror list + TaskUpdateEntry list" where
  "validate_items i [] = Inr []"
| "validate_items i (x # xs) =
     ap (ap (Inr (#))
       (at_loc [Key ''updates'', Index i] (TaskUpdateEntry_validate x)))
       (validate_items (Suc i) xs)"

text \<open>\<^verbatim>\<open>updates: List[TaskUpdateEntry] = []\<close>\<close>

definition updates_default :: "TaskUpdateEntry_raw list field \<Rightarrow> verror list + TaskUpdateEntry list" where
  "updates_default f =
     (case f of
        Absent \<Rightarrow> Inr []
      | JNull \<Rightarrow> Inl [([Key ''updates''], ''list_type'')]
      | Given xs \<Rightarrow> validate_items 0 xs)"

definition Task_validate :: "Task_raw \<Rightarrow> verror list + Task" where
  "Task_validate raw =
     ap (ap (ap (ap (ap (ap (ap (ap (ap
       (Inr (\<lambda>t d a b dep s due p us.
          \<lparr>task_title = t, task_description = d, task_assigned_to = a, task_assigned_by = b,
           task_department_id = dep, task_status = s, task_due_date = due, task_progress = p,
           task_updates = us\<rparr>))
       (str_required ''title'' (task_title_in raw)))
       (optional (task_description_in raw)))
       (str_required ''assigned_to'' (task_assigned_to_in raw)))
       (str_required ''assigned_by'' (task_assigned_by_in raw)))
       (optional (task_department_id_in raw)))
       (literal_default ''status'' TaskStatus ''PENDING'' (task_status_in raw)))
       (optional (task_due_date_in raw)))
       (int_default ''progress'' 0 100 0 (task_progress_in raw)))
       (updates_default (task_updates_in raw))"

subsection \<open>model_dump\<close>

definition opt_str :: "string option \<Rightarrow> 'o bson" where
  "opt_str s = (case s of None \<Rightarrow> Null | Some x \<Rightarrow> Str x)"

definition opt_int :: "int option \<Rightarrow> 'o bson" where
  "opt_int s = (case s of None \<Rightarrow> Null | Some x \<Rightarrow> Integer x)"

definition opt_datetime :: "datetime option \<Rightarrow> 'o bson" where
  "opt_datetime s = (case s of None \<Rightarrow> Null | Some x \<Rightarrow> Datetime x)"

definition TaskUpdateEntry_model_dump :: "TaskUpdateEntry \<Rightarrow> 'o dict" where
  "TaskUpdateEntry_model_dump e =
     [(''user_id'', Str (upd_user_id e)),
      (''note'', opt_str (upd_note e)),
      (''progress'', opt_int (upd_progress e)),
      (''created_at'', opt_datetime (upd_created_at e))]"

definition Task_model_dump :: "Task \<Rightarrow> 'o dict" where
  "Task_model_dump t =
     [(''title'', Str (task_title t)),
      (''description'', opt_str (task_description t)),
      (''assigned_to'', Str (task_assigned_to t)),
      (''assigned_by'', Str (task_assigned_by t)),
      (''department_id'', opt_str (task_department_id t)),
      (''status'', Str (task_status t)),
      (''due_date'', opt_datetime (task_due_date t)),
      (''progress'', Integer (task_progress t)),
      (''updates'', Array (map (\<lambda>e. Dict (TaskUpdateEntry_model_dump e)) (task_updates t)))]"

section \<open>Handlers (main.py)\<close>

text \<open>
  Truth value of the result of \<^verbatim>\<open>find_one\<close>: \<^verbatim>\<open>None\<close> is false, a document is a dictionary
  with at least the key \<^verbatim>\<open>_id\<close>, hence true.
\<close>

definition truthy_doc :: "'o document option \<Rightarrow> bool" where
  "truthy_doc r = (case r of None \<Rightarrow> False | Some d \<Rightarrow> True)"

definition get_user_by_email :: "'o database \<Rightarrow> string \<Rightarrow> 'o document option" where
  "get_user_by_email db email = find_one (db ''user'') [(''email'', Str email)]"

text \<open>
  \<^verbatim>\<open>register(payload)\<close>. \<open>now1\<close> and \<open>now2\<close> are the two readings of
  \<^verbatim>\<open>datetime.now(timezone.utc)\<close>, \<open>new_id\<close> the identifier the driver generates.
\<close>

definition register ::
  "'o collaborators \<Rightarrow> datetime \<Rightarrow> datetime \<Rightarrow> 'o \<Rightarrow> UserRegister \<Rightarrow> 'o database
     \<Rightarrow> (error + 'o dict) \<times> 'o database" where
  "register env now1 now2 new_id payload db =
     (if truthy_doc (get_user_by_email db (reg_email payload))
      then (Inl (HTTPException 400 ''Email already registered''), db)
      else
        let hashed = pwd_hash env (reg_password payload);
            doc = [(''name'', Str (reg_name payload)),
                   (''email'', Str (reg_email payload)),
                   (''password_hash'', Str hashed),
                   (''role'', Str (reg_role payload)),
                   (''department_id'', opt_str (reg_department_id payload)),
                   (''created_at'', Datetime now1),
                   (''updated_at'', Datetime now2)];
            (inserted_id, users) = insert_one (db ''user'') new_id doc
        in (Inr [(''id'', Str (oid_str env inserted_id)),
                 (''message'', Str ''Registered successfully'')],
            db(''user'' := users)))"

text \<open>
  Truth value of a stored value (\<^verbatim>\<open>None\<close>, empty strings and containers and zero are false),
  and \<^verbatim>\<open>d.get(k, default)\<close>.
\<close>

definition truthy :: "'o bson \<Rightarrow> bool" where
  "truthy v =
     (case v of
        Null \<Rightarrow> False
      | Str s \<Rightarrow> s \<noteq> []
      | Integer i \<Rightarrow> i \<noteq> 0
      | Datetime t \<Rightarrow> True
      | Oid i \<Rightarrow> True
      | Array xs \<Rightarrow> xs \<noteq> []
      | Dict kvs \<Rightarrow> kvs \<noteq> [])"

definition get_default :: "'o dict \<Rightarrow> string \<Rightarrow> 'o bson \<Rightarrow> 'o bson" where
  "get_default d k dflt = (case map_of d k of None \<Rightarrow> dflt | Some v \<Rightarrow> v)"

text \<open>
  \<^verbatim>\<open>u["id"] = str(u.pop("_id"))\<close>, and with \<^verbatim>\<open>u.pop("password_hash", None)\<close> after it, on a
  document \<open>u\<close> read from the store.
\<close>

definition expose_id :: "'o collaborators \<Rightarrow> 'o document \<Rightarrow> 'o dict" where
  "expose_id env u = AList.update ''id'' (Str (oid_str env (doc_id u))) (body u)"

definition strip_user :: "'o collaborators \<Rightarrow> 'o document \<Rightarrow> 'o dict" where
  "strip_user env u = AList.delete ''password_hash'' (expose_id env u)"


text \<open>\<^verbatim>\<open>if v: query[k] = v\<close> for an \<^verbatim>\<open>Optional[str]\<close> query parameter \<open>v\<close>.\<close>

definition add_filter :: "string \<Rightarrow> string option \<Rightarrow> 'o dict \<Rightarrow> 'o dict" where
  "add_filter k v query =
     (case v of
        None \<Rightarrow> query
      | Some s \<Rightarrow> if s \<noteq> [] then AList.update k (Str s) query else query)"

text \<open>\<^verbatim>\<open>list_users(role, department_id)\<close>\<close>

definition list_users ::
  "'o collaborators \<Rightarrow> string option \<Rightarrow> string option \<Rightarrow> 'o database \<Rightarrow> 'o dict list" where
  "list_users env role department_id db =
     (let query = add_filter ''department_id'' department_id (add_filter ''role'' role []);
          users = find_docs (db ''user'') query
      in map (strip_user env) users)"

text \<open>\<^verbatim>\<open>create_department(dep)\<close>, with the entity \<^verbatim>\<open>Department\<close> of \<^verbatim>\<open>schemas.py\<close>.\<close>

record Department =
  dep_name :: string
  dep_description :: "string option"
  dep_manager_user_id :: "string option"

definition Department_model_dump :: "Department \<Rightarrow> 'o dict" where
  "Department_model_dump d =
     [(''name'', Str (dep_name d)),
      (''description'', opt_str (dep_description d)),
      (''manager_user_id'', opt_str (dep_manager_user_id d))]"

definition create_department ::
  "'o collaborators \<Rightarrow> datetime \<Rightarrow> datetime \<Rightarrow> 'o \<Rightarrow> Department \<Rightarrow> 'o database
     \<Rightarrow> (error + 'o dict) \<times> 'o database" where
  "create_department env now1 now2 new_id dep db =
     (let data = Department_model_dump dep;
          doc = AList.update ''updated_at'' (Datetime now2)
                  (AList.update ''created_at'' (Datetime now1) data);
          (inserted_id, deps) = insert_one (db ''department'') new_id doc
      in (Inr [(''id'', Str (oid_str env inserted_id))], db(''department'' := deps)))"

text \<open>\<^verbatim>\<open>create_task(task)\<close>\<close>

definition create_task ::
  "'o collaborators \<Rightarrow> datetime \<Rightarrow> datetime \<Rightarrow> 'o \<Rightarrow> Task \<Rightarrow> 'o database
     \<Rightarrow> (error + 'o dict) \<times> 'o database" where
  "create_task env now1 now2 new_id task db =
     (let data = Task_model_dump task;
          data = AList.update ''created_at'' (Datetime now1) data;
          data = AList.update ''updated_at'' (Datetime now2) data;
          (inserted_id, tasks) = insert_one (db ''task'') new_id data
      in (Inr [(''id'', Str (oid_str env inserted_id))], db(''task'' := tasks)))"

text \<open>\<^verbatim>\<open>list_tasks(status, assigned_to, department_id)\<close>\<close>

definition list_tasks ::
  "'o collaborators \<Rightarrow> string option \<Rightarrow> string option \<Rightarrow> string option \<Rightarrow> 'o database
     \<Rightarrow> 'o dict list" where
  "list_tasks env status assigned_to department_id db =
     (let query = add_filter ''department_id'' department_id
                    (add_filter ''assigned_to'' assigned_to
                      (add_filter ''status'' status []));
          tasks = sort_docs env ''created_at'' (- 1) (find_docs (db ''task'') query)
      in map (expose_id env) tasks)"

text \<open>\<^verbatim>\<open>oid(id_str)\<close>\<close>

definition oid :: "'o collaborators \<Rightarrow> string \<Rightarrow> error + 'o" where
  "oid env id_str =
     (case ObjectId env id_str of
        Some i \<Rightarrow> Inr i
      | None \<Rightarrow> Inl (HTTPException 400 ''Invalid id format''))"

text \<open>
  \<^verbatim>\<open>add_task_update(task_id, update)\<close>. \<open>now1\<close> is the reading of the clock for the entry's
  \<^verbatim>\<open>created_at\<close> (taken only when the entry has none), \<open>now2\<close> the one for \<^verbatim>\<open>updated_at\<close>.
\<close>

definition add_task_update ::
  "'o collaborators \<Rightarrow> datetime \<Rightarrow> datetime \<Rightarrow> string \<Rightarrow> TaskUpdateEntry \<Rightarrow> 'o database
     \<Rightarrow> (error + 'o dict) \<times> 'o database" where
  "add_task_update env now1 now2 task_id update db =
     (let upd = TaskUpdateEntry_model_dump update;
          upd = (if \<not> truthy (get_default upd ''created_at'' Null)
                 then AList.update ''created_at'' (Datetime now1) upd
                 else upd)
      in case oid env task_id of
           Inl e \<Rightarrow> (Inl e, db)
         | Inr i \<Rightarrow>
             (case update_one (db ''task'') [(''_id'', Oid i)]
                     \<lparr>op_push = [(''updates'', Dict upd)],
                      op_set = [(''updated_at'', Datetime now2)]\<rparr> of
                Inl e \<Rightarrow> (Inl e, db)
              | Inr (matched_count, tasks) \<Rightarrow>
                  if matched_count = 0
                  then (Inl (HTTPException 404 ''Task not found''), db(''task'' := tasks))
                  else (Inr [(''message'', Str ''Update added'')], db(''task'' := tasks))))"

text \<open>\<^verbatim>\<open>set_task_status(task_id, status)\<close>\<close>

definition set_task_status ::
  "'o collaborators \<Rightarrow> datetime \<Rightarrow> string \<Rightarrow> string \<Rightarrow> 'o database
     \<Rightarrow> (error + 'o dict) \<times> 'o database" where
  "set_task_status env now task_id status db =
     (if status \<notin> set [''PENDING'', ''IN_PROGRESS'', ''COMPLETED'']
      then (Inl (HTTPException 400 ''Invalid status''), db)
      else
        case oid env task_id of
          Inl e \<Rightarrow> (Inl e, db)
        | Inr i \<Rightarrow>
            (case update_one (db ''task'') [(''_id'', Oid i)]
                    \<lparr>op_push = [],
                     op_set = [(''status'', Str status), (''updated_at'', Datetime now)]\<rparr> of
               Inl e \<Rightarrow> (Inl e, db)
             | Inr (matched_count, tasks) \<Rightarrow>
                 if matched_count = 0
                 then (Inl (HTTPException 404 ''Task not found''), db(''task'' := tasks))
                 else (Inr [(''message'', Str ''Status updated'')], db(''task'' := tasks))))"

text \<open>
  \<^verbatim>\<open>analytics_overview()\<close>. The counts are Python integers; the completion rate is a Python
  float, whose arithmetic is taken as a parameter: \<open>true_div\<close> is \<^verbatim>\<open>/\<close> on two integers,
  \<open>times_int\<close> is \<^verbatim>\<open>*\<close> of a float and an integer, \<open>float_zero\<close> is the literal \<^verbatim>\<open>0.0\<close>.
\<close>

record 'f float_arith =
  true_div :: "int \<Rightarrow> int \<Rightarrow> 'f"
  times_int :: "'f \<Rightarrow> int \<Rightarrow> 'f"
  float_zero :: 'f

record 'f overview =
  ov_users :: int
  ov_tasks :: int
  ov_completed :: int
  ov_in_progress :: int
  ov_pending :: int
  ov_completion_rate :: 'f

definition analytics_overview :: "'f float_arith \<Rightarrow> 'o database \<Rightarrow> 'f overview" where
  "analytics_overview fl db =
     (let total_users = count_documents (db ''user'') [];
          total_tasks = count_documents (db ''task'') [];
          completed = count_documents (db ''task'') [(''status'', Str ''COMPLETED'')];
          in_progress = count_documents (db ''task'') [(''status'', Str ''IN_PROGRESS'')];
          pending = count_documents (db ''task'') [(''status'', Str ''PENDING'')]
      in \<lparr>ov_users = total_users,
          ov_tasks = total_tasks,
          ov_completed = completed,
          ov_in_progress = in_progress,
          ov_pending = pending,
          ov_completion_rate =
            (if total_tasks \<noteq> 0 then times_int fl (true_div fl completed total_tasks) 100
             else float_zero fl)\<rparr>)"

subsection \<open>Request bodies in front of the handlers\<close>

text \<open>
  The framework decodes and validates the body declared in a handler's signature and calls
  the handler only with a validated entity.
\<close>

definition post_auth_register ::
  "(string \<Rightarrow> string option) \<Rightarrow> 'o collaborators \<Rightarrow> datetime \<Rightarrow> datetime \<Rightarrow> 'o
     \<Rightarrow> UserRegister_raw \<Rightarrow> 'o database \<Rightarrow> (error + 'o dict) \<times> 'o database" where
  "post_auth_register validate_email env now1 now2 new_id raw db =
     (case UserRegister_validate validate_email raw of
        Inl es \<Rightarrow> (Inl (RequestValidationError es), db)
      | Inr payload \<Rightarrow> register env now1 now2 new_id payload db)"

definition post_tasks ::
  "'o collaborators \<Rightarrow> datetime \<Rightarrow> datetime \<Rightarrow> 'o \<Rightarrow> Task_raw \<Rightarrow> 'o database
     \<Rightarrow> (error + 'o dict) \<times> 'o database" where
  "post_tasks env now1 now2 new_id raw db =
     (case Task_validate raw of
        Inl es \<Rightarrow> (Inl (RequestValidationError es), db)
      | Inr task \<Rightarrow> create_task env now1 now2 new_id task db)"

definition post_tasks_update ::
  "'o collaborators \<Rightarrow> datetime \<Rightarrow> datetime \<Rightarrow> string \<Rightarrow> TaskUpdateEntry_raw \<Rightarrow> 'o database
     \<Rightarrow> (error + 'o dict) \<times> 'o database" where
  "post_tasks_update env now1 now2 task_id raw db =
     (case TaskUpdateEntry_validate raw of
        Inl es \<Rightarrow> (Inl (RequestValidationError es), db)
      | Inr update \<Rightarrow> add_task_update env now1 now2 task_id update db)"

section \<open>Store invariants\<close>

text \<open>The emails held by a list of user documents, and the invariant that no two users share one.\<close>

definition emails :: "'o document list \<Rightarrow> 'o bson list" where
  "emails us = List.map_filter (\<lambda>d. lookup d ''email'') us"

definition unique_emails :: "'o database \<Rightarrow> bool" where
  "unique_emails db = distinct (emails (db ''user''))"

text \<open>
  The sequence of update entries a task holds before an update is added: the array under
  \<^verbatim>\<open>updates\<close>, and the empty sequence when the task has no such key. A task whose \<^verbatim>\<open>updates\<close>
  holds anything else has no such sequence.
\<close>

definition prior_updates :: "'o document \<Rightarrow> 'o bson list option" where
  "prior_updates d =
     (case lookup d ''updates'' of
        None \<Rightarrow> Some []
      | Some (Array us) \<Rightarrow> Some us
      | Some _ \<Rightarrow> None)"

text \<open>Every task of the store holds an array under \<^verbatim>\<open>updates\<close>.\<close>

definition has_updates :: "'o document \<Rightarrow> bool" where
  "has_updates d = (case lookup d ''updates'' of Some (Array us) \<Rightarrow> True | _ \<Rightarrow> False)"

definition tasks_wf :: "'o database \<Rightarrow> bool" where
  "tasks_wf db = list_all has_updates (db ''task'')"

text \<open>
  The stores the handlers produce: the empty store, and the store after any call of one of
  the five handlers that write (\<^verbatim>\<open>register\<close>, \<^verbatim>\<open>create_department\<close>, \<^verbatim>\<open>create_task\<close>,
  \<^verbatim>\<open>add_task_update\<close>, \<^verbatim>\<open>set_task_status\<close>), with any arguments, clock readings and generated
  identifiers.
\<close>

inductive reachable :: "'o collaborators \<Rightarrow> 'o database \<Rightarrow> bool" for env :: "'o collaborators" where
  initially: "reachable env (\<lambda>c. [])"
| by_register:
    "reachable env db \<Longrightarrow> reachable env (snd (register env now1 now2 new_id payload db))"
| by_create_department:
    "reachable env db \<Longrightarrow> reachable env (snd (create_department env now1 now2 new_id dep db))"
| by_create_task:
    "reachable env db \<Longrightarrow> reachable env (snd (create_task env now1 now2 new_id task db))"
| by_add_task_update:
    "reachable env db \<Longrightarrow> reachable env (snd (add_task_update env now1 now2 task_id update db))"
| by_set_task_status:
    "reachable env db \<Longrightarrow> reachable env (snd (set_task_status env now task_id status db))"

section \<open>List filters\<close>

text \<open>
  Two readings of an optional filter \<open>v\<close> on the key \<open>k\<close> of a document \<open>u\<close>. In the first,
  the one of the specification of List Users, an absent filter imposes nothing and a supplied
  one must equal the stored value. In the second an empty string imposes nothing either.
\<close>

definition exact_filter :: "string \<Rightarrow> string option \<Rightarrow> 'o document \<Rightarrow> bool" where
  "exact_filter k v u = (case v of None \<Rightarrow> True | Some s \<Rightarrow> lookup u k = Some (Str s))"

definition nonempty_filter :: "string \<Rightarrow> string option \<Rightarrow> 'o document \<Rightarrow> bool" where
  "nonempty_filter k v u =
     (case v of None \<Rightarrow> True | Some s \<Rightarrow> s = [] \<or> lookup u k = Some (Str s))"

text \<open>List Users as the specification words it: exact filters, combined with AND.\<close>

definition list_users_exact ::
  "'o collaborators \<Rightarrow> string option \<Rightarrow> string option \<Rightarrow> 'o database \<Rightarrow> 'o dict list" where
  "list_users_exact env role department_id db =
     map (strip_user env)
       (filter (\<lambda>u. exact_filter ''role'' role u \<and> exact_filter ''department_id'' department_id u)
          (db ''user''))"

section \<open>Example data\<close>

text \<open>
  A small instance of the collaborators and of the store, on which the theorems below are
  exercised: identifiers are natural numbers, written \<^verbatim>\<open>t1\<close>, \<^verbatim>\<open>t2\<close>, ...
\<close>

definition ex_env :: "nat collaborators" where
  "ex_env =
     \<lparr>ObjectId = (\<lambda>s. if s = ''t1'' then Some 1 else if s = ''t2'' then Some 2 else None),
      oid_str = (\<lambda>i. if i = 1 then ''t1'' else if i = 2 then ''t2'' else ''t3''),
      pwd_hash = (\<lambda>p. ''h:'' @ p),
      pwd_verify = (\<lambda>p h. h = Str (''h:'' @ p)),
      sort_docs = (\<lambda>k direction ds. rev ds)\<rparr>"

definition ex_alice :: "nat document" where
  "ex_alice =
     \<lparr>doc_id = 1,
      body = [(''name'', Str ''Alice''),
              (''email'', Str ''a@x.io''),
              (''password_hash'', Str ''h:pw''),
              (''role'', Str ''MANAGER''),
              (''department_id'', Str ''d1''),
              (''created_at'', Datetime 100),
              (''updated_at'', Datetime 100)]\<rparr>"

definition ex_task :: "nat document" where
  "ex_task =
     \<lparr>doc_id = 1,
      body = [(''title'', Str ''Ship''),
              (''description'', Null),
              (''assigned_to'', Str ''t1''),
              (''assigned_by'', Str ''t1''),
              (''department_id'', Null),
              (''status'', Str ''PENDING''),
              (''due_date'', Null),
              (''progress'', Integer 100),
              (''updates'', Array []),
              (''created_at'', Datetime 200),
              (''updated_at'', Datetime 200)]\<rparr>"

definition ex_db :: "nat database" where
  "ex_db = (\<lambda>c. if c = ''user'' then [ex_alice] else if c = ''task'' then [ex_task] else [])"

definition ex_register :: UserRegister where
  "ex_register =
     \<lparr>reg_name = ''Bob'', reg_email = ''b@x.io'', reg_password = ''pw2'',
      reg_role = ''EMPLOYEE'', reg_department_id = None\<rparr>"

definition ex_update :: TaskUpdateEntry where
  "ex_update =
     \<lparr>upd_user_id = ''t1'', upd_note = Some ''half'', upd_progress = Some 50,
      upd_created_at = None\<rparr>"

definition ex_login :: UserLogin where
  "ex_login = \<lparr>login_email = ''a@x.io'', login_password = ''pw''\<rparr>"

text \<open>
  A second task, \<^verbatim>\<open>t2\<close>, that already holds one update entry, a store with both tasks, an
  update entry that carries its own \<^verbatim>\<open>created_at\<close>, a task document without the key
  \<^verbatim>\<open>updates\<close>, and a task as \<^verbatim>\<open>create_task\<close> receives it.
\<close>

definition ex_entry :: "nat dict" where
  "ex_entry =
     [(''user_id'', Str ''t1''),
      (''note'', Str ''start''),
      (''progress'', Integer 10),
      (''created_at'', Datetime 300)]"

definition ex_task2 :: "nat document" where
  "ex_task2 =
     \<lparr>doc_id = 2,
      body = [(''title'', Str ''Test''),
              (''description'', Str ''all of it''),
              (''assigned_to'', Str ''t1''),
              (''assigned_by'', Str ''t1''),
              (''department_id'', Str ''d1''),
              (''status'', Str ''IN_PROGRESS''),
              (''due_date'', Datetime 900),
              (''progress'', Integer 10),
              (''updates'', Array [Dict ex_entry]),
              (''created_at'', Datetime 250),
              (''updated_at'', Datetime 300)]\<rparr>"

definition ex_db2 :: "nat database" where
  "ex_db2 = (\<lambda>c. if c = ''user'' then [ex_alice] else if c = ''task'' then [ex_task, ex_task2] else [])"

definition ex_update_dated :: TaskUpdateEntry where
  "ex_update_dated =
     \<lparr>upd_user_id = ''t2'', upd_note = None, upd_progress = None, upd_created_at = Some 42\<rparr>"

definition ex_bare :: "nat document" where
  "ex_bare = \<lparr>doc_id = 2, body = [(''title'', Str ''Bare'')]\<rparr>"

definition ex_new_task :: Task where
  "ex_new_task =
     \<lparr>task_title = ''Plan'', task_description = None, task_assigned_to = ''t1'',
      task_assigned_by = ''t1'', task_department_id = None, task_status = ''PENDING'',
      task_due_date = None, task_progress = 0, task_updates = []\<rparr>"

text \<open>
  Two more users: Bob, as \<^verbatim>\<open>register\<close> stores him, and Carol, whose \<^verbatim>\<open>department_id\<close> is the
  empty string; and the store that holds all three.
\<close>

definition ex_bob :: "nat document" where
  "ex_bob =
     \<lparr>doc_id = 2,
      body = [(''name'', Str ''Bob''),
              (''email'', Str ''b@x.io''),
              (''password_hash'', Str ''h:pw2''),
              (''role'', Str ''EMPLOYEE''),
              (''department_id'', Null),
              (''created_at'', Datetime 300),
              (''updated_at'', Datetime 301)]\<rparr>"

definition ex_carol :: "nat document" where
  "ex_carol =
     \<lparr>doc_id = 3,
      body = [(''name'', Str ''Carol''),
              (''email'', Str ''c@x.io''),
              (''password_hash'', Str ''h:pw3''),
              (''role'', Str ''MANAGER''),
              (''department_id'', Str ''''),
              (''created_at'', Datetime 400),
              (''updated_at'', Datetime 401)]\<rparr>"

definition ex_db3 :: "nat database" where
  "ex_db3 =
     (\<lambda>c. if c = ''user'' then [ex_alice, ex_bob, ex_carol]
          else if c = ''task'' then [ex_task, ex_task2] else [])"

text \<open>
  A store with four tasks, one of them completed, and an arithmetic for the completion
  rate: the one of the real numbers.
\<close>

definition ex_done :: "nat document" where
  "ex_done =
     \<lparr>doc_id = 3,
      body = [(''title'', Str ''Design''),
              (''status'', Str ''COMPLETED''),
              (''progress'', Integer 100),
              (''updates'', Array []),
              (''created_at'', Datetime 150),
              (''updated_at'', Datetime 180)]\<rparr>"

definition ex_open :: "nat document" where
  "ex_open =
     \<lparr>doc_id = 4,
      body = [(''title'', Str ''Review''),
              (''status'', Str ''PENDING''),
              (''progress'', Integer 0),
              (''updates'', Array []),
              (''created_at'', Datetime 160),
              (''updated_at'', Datetime 160)]\<rparr>"

definition ex_db4 :: "nat database" where
  "ex_db4 =
     (\<lambda>c. if c = ''user'' then [ex_alice, ex_bob, ex_carol]
          else if c = ''task'' then [ex_task, ex_task2, ex_done, ex_open] else [])"

definition ex_float :: "real float_arith" where
  "ex_float =
     \<lparr>true_div = (\<lambda>a b. real_of_int a / real_of_int b),
      times_int = (\<lambda>x n. x * real_of_int n),
      float_zero = 0\<rparr>"

text \<open>
  Request bodies: a task and an update entry with every other field valid, a registration,
  and the same registration with the empty string as name. The email validator of the
  examples accepts the addresses that contain \<^verbatim>\<open>@\<close> and returns them as they are.
\<close>

definition ex_task_raw :: Task_raw where
  "ex_task_raw =
     \<lparr>task_title_in = Given ''Plan'', task_description_in = Absent,
      task_assigned_to_in = Given ''t1'', task_assigned_by_in = Given ''t1'',
      task_department_id_in = JNull, task_status_in = Absent, task_due_date_in = Absent,
      task_progress_in = Absent, task_updates_in = Absent\<rparr>"

definition ex_update_raw :: TaskUpdateEntry_raw where
  "ex_update_raw =
     \<lparr>upd_user_id_in = Given ''t1'', upd_note_in = Given ''half'', upd_progress_in = Absent,
      upd_created_at_in = Absent\<rparr>"

definition ex_validate_email :: "string \<Rightarrow> string option" where
  "ex_validate_email s = (if CHR ''@'' \<in> set s then Some s else None)"

definition ex_register_raw :: UserRegister_raw where
  "ex_register_raw =
     \<lparr>reg_name_in = Given ''Bob'', reg_email_in = Given ''b@x.io'',
      reg_password_in = Given ''pw2'', reg_role_in = Absent, reg_department_id_in = Absent\<rparr>"

definition ex_nameless :: UserRegister_raw where
  "ex_nameless = ex_register_raw\<lparr>reg_name_in := Given ''''\<rparr>"

section \<open>The document store\<close>

lemma find_one_None_iff: "find_one coll q = None \<longleftrightarrow> (\<forall>d \<in> set coll. \<not> matches q d)"
  by (auto simp: find_one_def find_None_iff)

lemma find_one_SomeD: "find_one coll q = Some d \<Longrightarrow> d \<in> set coll \<and> matches q d"
  by (auto simp: find_one_def find_Some_iff)

lemma matches_single: "matches [(k, v)] d \<longleftrightarrow> lookup d k = Some v"
  by (simp add: matches_def)

section \<open>Register\<close>

lemma truthy_get_user_by_email:
  "truthy_doc (get_user_by_email db e) \<longleftrightarrow>
     (\<exists>d \<in> set (db ''user''). lookup d ''email'' = Some (Str e))"
proof (cases "get_user_by_email db e")
  case None
  then have "\<forall>d \<in> set (db ''user''). \<not> matches [(''email'', Str e)] d"
    by (simp add: get_user_by_email_def find_one_None_iff)
  with None show ?thesis
    by (simp add: truthy_doc_def matches_single)
next
  case (Some d)
  then have "d \<in> set (db ''user'') \<and> matches [(''email'', Str e)] d"
    by (simp add: get_user_by_email_def find_one_SomeD)
  with Some show ?thesis
    by (auto simp: truthy_doc_def matches_single)
qed

lemma emails_append: "emails (us @ vs) = emails us @ emails vs"
  by (induction us) (auto simp: emails_def split: option.splits)

lemma set_emails: "set (emails us) = {v. \<exists>d \<in> set us. lookup d ''email'' = Some v}"
  by (induction us) (auto simp: emails_def split: option.splits)

text \<open>
  C1. Register answers with the duplicate-email error (status 400) exactly when some stored
  user's email equals the payload's email as a string, whatever the other fields are, and
  then leaves the store as it is. Otherwise it stores the user with the hashed password and
  the two clock readings, and returns the new identifier. A store in which no two users
  share an email stays so.
\<close>

theorem register_spec:
  "(fst (register env now1 now2 new_id payload db)
      = Inl (HTTPException 400 ''Email already registered'')
      \<longleftrightarrow> (\<exists>d \<in> set (db ''user''). lookup d ''email'' = Some (Str (reg_email payload))))
   \<and> ((\<exists>d \<in> set (db ''user''). lookup d ''email'' = Some (Str (reg_email payload)))
        \<longrightarrow> snd (register env now1 now2 new_id payload db) = db)
   \<and> (\<not> (\<exists>d \<in> set (db ''user''). lookup d ''email'' = Some (Str (reg_email payload)))
        \<longrightarrow> register env now1 now2 new_id payload db =
             (Inr [(''id'', Str (oid_str env new_id)),
                   (''message'', Str ''Registered successfully'')],
              db(''user'' := db ''user'' @
                 [\<lparr>doc_id = new_id,
                   body = [(''name'', Str (reg_name payload)),
                           (''email'', Str (reg_email payload)),
                           (''password_hash'', Str (pwd_hash env (reg_password payload))),
                           (''role'', Str (reg_role payload)),
                           (''department_id'', opt_str (reg_department_id payload)),
                           (''created_at'', Datetime now1),
                           (''updated_at'', Datetime now2)]\<rparr>])))
   \<and> (unique_emails db \<longrightarrow> unique_emails (snd (register env now1 now2 new_id payload db)))"
proof -
  let ?taken = "\<exists>d \<in> set (db ''user''). lookup d ''email'' = Some (Str (reg_email payload))"
  have t: "truthy_doc (get_user_by_email db (reg_email payload)) \<longleftrightarrow> ?taken"
    by (rule truthy_get_user_by_email)
  show ?thesis
  proof (cases ?taken)
    case True
    with t show ?thesis by (simp add: register_def)
  next
    case False
    with t have r: "register env now1 now2 new_id payload db =
             (Inr [(''id'', Str (oid_str env new_id)),
                   (''message'', Str ''Registered successfully'')],
              db(''user'' := db ''user'' @
                 [\<lparr>doc_id = new_id,
                   body = [(''name'', Str (reg_name payload)),
                           (''email'', Str (reg_email payload)),
                           (''password_hash'', Str (pwd_hash env (reg_password payload))),
                           (''role'', Str (reg_role payload)),
                           (''department_id'', opt_str (reg_department_id payload)),
                           (''created_at'', Datetime now1),
                           (''updated_at'', Datetime now2)]\<rparr>]))"
      by (simp add: register_def insert_one_def)
    have fresh: "Str (reg_email payload) \<notin> set (emails (db ''user''))"
      using False by (auto simp: set_emails)
    have inv: "unique_emails db \<longrightarrow>
        unique_emails (snd (register env now1 now2 new_id payload db))"
      using fresh by (simp add: r unique_emails_def emails_append) (simp add: emails_def lookup_def)
    from False r inv show ?thesis by simp
  qed
qed

text \<open>
  On the example store, which holds Alice: Bob's registration is stored and keeps the emails
  distinct; a registration under Alice's email, with every other field different, is
  refused and changes nothing.
\<close>

theorem register_spec_witness:
  "unique_emails ex_db
   \<and> fst (register ex_env 300 301 2 ex_register ex_db)
       = Inr [(''id'', Str ''t2''), (''message'', Str ''Registered successfully'')]
   \<and> unique_emails (snd (register ex_env 300 301 2 ex_register ex_db))
   \<and> register ex_env 300 301 2 (ex_register\<lparr>reg_email := ''a@x.io''\<rparr>) ex_db
       = (Inl (HTTPException 400 ''Email already registered''), ex_db)"
proof -
  have u: "unique_emails ex_db"
    by (simp add: unique_emails_def emails_def ex_db_def ex_alice_def lookup_def)
  have free: "\<not> (\<exists>d \<in> set (ex_db ''user''). lookup d ''email'' = Some (Str (reg_email ex_register)))"
    by (simp add: ex_db_def ex_alice_def ex_register_def lookup_def)
  have taken: "\<exists>d \<in> set (ex_db ''user'').
      lookup d ''email'' = Some (Str (reg_email (ex_register\<lparr>reg_email := ''a@x.io''\<rparr>)))"
    by (simp add: ex_db_def ex_alice_def lookup_def)
  note ok = register_spec [of ex_env 300 301 2 ex_register ex_db]
  note dup = register_spec [of ex_env 300 301 2 "ex_register\<lparr>reg_email := ''a@x.io''\<rparr>" ex_db]
  have 1: "fst (register ex_env 300 301 2 ex_register ex_db)
       = Inr [(''id'', Str ''t2''), (''message'', Str ''Registered successfully'')]"
    using ok free by (simp add: ex_env_def)
  have 2: "unique_emails (snd (register ex_env 300 301 2 ex_register ex_db))"
    using ok u by blast
  have 3: "register ex_env 300 301 2 (ex_register\<lparr>reg_email := ''a@x.io''\<rparr>) ex_db
       = (Inl (HTTPException 400 ''Email already registered''), ex_db)"
    using dup taken by (metis prod.collapse)
  from u 1 2 3 show ?thesis by blast
qed

section \<open>Updating a task\<close>

lemma matches_id: "matches [(''_id'', Oid i)] d \<longleftrightarrow> doc_id d = i"
  by (simp add: matches_def lookup_def)

lemma update_one_no_match:
  "\<forall>d \<in> set ds. \<not> matches q d \<Longrightarrow> update_one ds q u = Inr (0, ds)"
  by (induction ds) auto

lemma update_one_first:
  "\<forall>x \<in> set ts1. \<not> matches q x \<Longrightarrow> matches q d \<Longrightarrow>
   update_one (ts1 @ d # ts2) q u =
     (case apply_update u (body d) of
        None \<Rightarrow> Inl WriteError
      | Some b \<Rightarrow> Inr (1, ts1 @ d\<lparr>body := b\<rparr> # ts2))"
  by (induction ts1) (auto split: option.splits)

lemma lookup_body_update:
  "lookup (d\<lparr>body := b\<rparr>) k = (if k = ''_id'' then Some (Oid (doc_id d)) else map_of b k)"
  by (simp add: lookup_def)

lemma set_status_update:
  "apply_update \<lparr>op_push = [], op_set = [(''status'', Str s), (''updated_at'', Datetime t)]\<rparr> b
     = Some (AList.update ''updated_at'' (Datetime t) (AList.update ''status'' (Str s) b))"
  by (simp add: apply_update_def)

lemma dump_created_at:
  "get_default (TaskUpdateEntry_model_dump update) ''created_at'' Null = opt_datetime (upd_created_at update)"
  by (simp add: get_default_def TaskUpdateEntry_model_dump_def)

lemma truthy_opt_datetime: "truthy (opt_datetime c) \<longleftrightarrow> c \<noteq> None"
  by (cases c) (simp_all add: truthy_def opt_datetime_def)

lemma push_update:
  "map_of b ''updates'' = Some (Array us) \<Longrightarrow>
   apply_update \<lparr>op_push = [(''updates'', e)], op_set = [(''updated_at'', Datetime t)]\<rparr> b
     = Some (AList.update ''updated_at'' (Datetime t) (AList.update ''updates'' (Array (us @ [e])) b))"
  by (simp add: apply_update_def)

text \<open>
  C3. For a status among \<^verbatim>\<open>PENDING\<close>, \<^verbatim>\<open>IN_PROGRESS\<close>, \<^verbatim>\<open>COMPLETED\<close> and a task id that names an
  existing task, Set Task Status succeeds; the task the filter on \<^verbatim>\<open>_id\<close> selects gets the
  given status and the clock reading as \<^verbatim>\<open>updated_at\<close>, every other key of it (in particular
  \<^verbatim>\<open>progress\<close> and \<^verbatim>\<open>updates\<close>) keeps its value, and nothing else in the store changes. For any
  other status the answer is the invalid-status error and the store is as before.
\<close>

theorem set_task_status_spec:
  "(status \<in> set [''PENDING'', ''IN_PROGRESS'', ''COMPLETED'']
      \<and> ObjectId env task_id = Some i \<and> (\<exists>d \<in> set (db ''task''). doc_id d = i)
     \<longrightarrow> (\<exists>ts1 d ts2 d'.
            db ''task'' = ts1 @ d # ts2 \<and> doc_id d = i \<and> (\<forall>x \<in> set ts1. doc_id x \<noteq> i)
            \<and> set_task_status env now task_id status db
                = (Inr [(''message'', Str ''Status updated'')], db(''task'' := ts1 @ d' # ts2))
            \<and> doc_id d' = i
            \<and> lookup d' ''status'' = Some (Str status)
            \<and> lookup d' ''updated_at'' = Some (Datetime now)
            \<and> (\<forall>k. k \<noteq> ''status'' \<and> k \<noteq> ''updated_at'' \<longrightarrow> lookup d' k = lookup d k)
            \<and> lookup d' ''progress'' = lookup d ''progress''
            \<and> lookup d' ''updates'' = lookup d ''updates''))
   \<and> (status \<notin> set [''PENDING'', ''IN_PROGRESS'', ''COMPLETED'']
     \<longrightarrow> set_task_status env now task_id status db
           = (Inl (HTTPException 400 ''Invalid status''), db))"
proof (intro conjI impI)
  assume a: "status \<in> set [''PENDING'', ''IN_PROGRESS'', ''COMPLETED'']
      \<and> ObjectId env task_id = Some i \<and> (\<exists>d \<in> set (db ''task''). doc_id d = i)"
  then obtain ts1 d ts2 where
    split: "db ''task'' = ts1 @ d # ts2" and d: "doc_id d = i" and
    first: "\<forall>x \<in> set ts1. doc_id x \<noteq> i"
    using split_list_first_prop [of "db ''task''" "\<lambda>d. doc_id d = i"] by blast
  let ?b = "AList.update ''updated_at'' (Datetime now) (AList.update ''status'' (Str status) (body d))"
  let ?d' = "d\<lparr>body := ?b\<rparr>"
  have u: "update_one (db ''task'') [(''_id'', Oid i)]
             \<lparr>op_push = [], op_set = [(''status'', Str status), (''updated_at'', Datetime now)]\<rparr>
           = Inr (1, ts1 @ ?d' # ts2)"
    using first d by (simp add: split update_one_first matches_id set_status_update)
  have r: "set_task_status env now task_id status db
             = (Inr [(''message'', Str ''Status updated'')], db(''task'' := ts1 @ ?d' # ts2))"
    using a by (simp add: set_task_status_def oid_def u)
  have frame: "\<forall>k. k \<noteq> ''status'' \<and> k \<noteq> ''updated_at'' \<longrightarrow> lookup ?d' k = lookup d k"
    by (simp add: lookup_def update_conv')
  have "doc_id ?d' = i" "lookup ?d' ''status'' = Some (Str status)"
       "lookup ?d' ''updated_at'' = Some (Datetime now)"
       "lookup ?d' ''progress'' = lookup d ''progress''"
       "lookup ?d' ''updates'' = lookup d ''updates''"
    using d by (simp_all add: lookup_def update_conv')
  with split d first r frame
  show "\<exists>ts1 d ts2 d'.
            db ''task'' = ts1 @ d # ts2 \<and> doc_id d = i \<and> (\<forall>x \<in> set ts1. doc_id x \<noteq> i)
            \<and> set_task_status env now task_id status db
                = (Inr [(''message'', Str ''Status updated'')], db(''task'' := ts1 @ d' # ts2))
            \<and> doc_id d' = i
            \<and> lookup d' ''status'' = Some (Str status)
            \<and> lookup d' ''updated_at'' = Some (Datetime now)
            \<and> (\<forall>k. k \<noteq> ''status'' \<and> k \<noteq> ''updated_at'' \<longrightarrow> lookup d' k = lookup d k)
            \<and> lookup d' ''progress'' = lookup d ''progress''
            \<and> lookup d' ''updates'' = lookup d ''updates''"
    by blast
next
  assume "status \<notin> set [''PENDING'', ''IN_PROGRESS'', ''COMPLETED'']"
  then show "set_task_status env now task_id status db
           = (Inl (HTTPException 400 ''Invalid status''), db)"
    by (simp add: set_task_status_def)
qed

text \<open>
  On the example store: the task \<^verbatim>\<open>t1\<close> is set to \<^verbatim>\<open>COMPLETED\<close>, and the status \<^verbatim>\<open>DONE\<close> is
  refused.
\<close>

theorem set_task_status_spec_witness:
  "''COMPLETED'' \<in> set [''PENDING'', ''IN_PROGRESS'', ''COMPLETED'']
   \<and> ObjectId ex_env ''t1'' = Some 1
   \<and> (\<exists>d \<in> set (ex_db ''task''). doc_id d = 1)
   \<and> (\<exists>ts1 d ts2 d'.
         ex_db ''task'' = ts1 @ d # ts2 \<and> doc_id d = 1 \<and> (\<forall>x \<in> set ts1. doc_id x \<noteq> 1)
         \<and> set_task_status ex_env 500 ''t1'' ''COMPLETED'' ex_db
             = (Inr [(''message'', Str ''Status updated'')], ex_db(''task'' := ts1 @ d' # ts2))
         \<and> doc_id d' = 1
         \<and> lookup d' ''status'' = Some (Str ''COMPLETED'')
         \<and> lookup d' ''updated_at'' = Some (Datetime 500)
         \<and> (\<forall>k. k \<noteq> ''status'' \<and> k \<noteq> ''updated_at'' \<longrightarrow> lookup d' k = lookup d k)
         \<and> lookup d' ''progress'' = lookup d ''progress''
         \<and> lookup d' ''updates'' = lookup d ''updates'')
   \<and> ''DONE'' \<notin> set [''PENDING'', ''IN_PROGRESS'', ''COMPLETED'']
   \<and> set_task_status ex_env 500 ''t1'' ''DONE'' ex_db
       = (Inl (HTTPException 400 ''Invalid status''), ex_db)"
proof -
  have h: "''COMPLETED'' \<in> set [''PENDING'', ''IN_PROGRESS'', ''COMPLETED'']
      \<and> ObjectId ex_env ''t1'' = Some 1 \<and> (\<exists>d \<in> set (ex_db ''task''). doc_id d = 1)"
    by (simp add: ex_env_def ex_db_def ex_task_def)
  have n: "''DONE'' \<notin> set [''PENDING'', ''IN_PROGRESS'', ''COMPLETED'']"
    by simp
  from h n
    set_task_status_spec [of "''COMPLETED''" ex_env "''t1''" 1 ex_db 500]
    set_task_status_spec [of "''DONE''" ex_env "''t1''" 1 ex_db 500]
  show ?thesis by blast
qed

lemma push_update_absent:
  "map_of b ''updates'' = None \<Longrightarrow>
   apply_update \<lparr>op_push = [(''updates'', e)], op_set = [(''updated_at'', Datetime t)]\<rparr> b
     = Some (AList.update ''updated_at'' (Datetime t) (AList.update ''updates'' (Array [e]) b))"
  by (simp add: apply_update_def)

lemma prior_updates_cases:
  "prior_updates d = Some us \<longleftrightarrow>
     (map_of (body d) ''updates'' = None \<and> us = [])
     \<or> map_of (body d) ''updates'' = Some (Array us)"
  by (auto simp: prior_updates_def lookup_def split: option.splits bson.splits)

lemma push_prior_updates:
  "prior_updates d = Some us \<Longrightarrow>
   apply_update \<lparr>op_push = [(''updates'', e)], op_set = [(''updated_at'', Datetime t)]\<rparr> (body d)
     = Some (AList.update ''updated_at'' (Datetime t)
              (AList.update ''updates'' (Array (us @ [e])) (body d)))"
  by (auto simp: prior_updates_cases push_update push_update_absent)

lemma has_updates_iff: "has_updates d \<longleftrightarrow> (\<exists>us. map_of (body d) ''updates'' = Some (Array us))"
  by (auto simp: has_updates_def lookup_def split: option.splits bson.splits)

lemma update_one_preserves:
  "(\<forall>d b. P d \<longrightarrow> apply_update u (body d) = Some b \<longrightarrow> P (d\<lparr>body := b\<rparr>)) \<Longrightarrow>
   list_all P ds \<Longrightarrow> update_one ds q u = Inr (n, ds') \<Longrightarrow> list_all P ds'"
proof (induction ds arbitrary: n ds')
  case Nil
  then show ?case by simp
next
  case (Cons d ds)
  show ?case
  proof (cases "matches q d")
    case True
    with Cons.prems obtain b where b: "apply_update u (body d) = Some b"
      and r: "ds' = d\<lparr>body := b\<rparr> # ds"
      by (auto split: option.splits)
    from Cons.prems have "P d" by simp
    with b Cons.prems have "P (d\<lparr>body := b\<rparr>)" by blast
    with Cons.prems r show ?thesis by simp
  next
    case False
    with Cons.prems obtain m es where u: "update_one ds q u = Inr (m, es)" and r: "ds' = d # es"
      by (auto split: sum.splits)
    from Cons.prems have "list_all P ds" by simp
    with Cons.prems u have "list_all P es" using Cons.IH by blast
    with Cons.prems r show ?thesis by simp
  qed
qed

lemma set_status_keeps_updates:
  "has_updates d \<Longrightarrow>
   apply_update \<lparr>op_push = [], op_set = [(''status'', Str s), (''updated_at'', Datetime t)]\<rparr> (body d)
     = Some b \<Longrightarrow> has_updates (d\<lparr>body := b\<rparr>)"
  by (auto simp: set_status_update has_updates_iff update_conv')

lemma push_keeps_updates:
  "has_updates d \<Longrightarrow>
   apply_update \<lparr>op_push = [(''updates'', e)], op_set = [(''updated_at'', Datetime t)]\<rparr> (body d)
     = Some b \<Longrightarrow> has_updates (d\<lparr>body := b\<rparr>)"
  by (auto simp: has_updates_iff push_update update_conv')

lemma set_task_status_tasks_wf:
  "tasks_wf db \<Longrightarrow> tasks_wf (snd (set_task_status env now task_id status db))"
proof -
  assume wf: "tasks_wf db"
  let ?u = "\<lparr>op_push = [], op_set = [(''status'', Str status), (''updated_at'', Datetime now)]\<rparr>"
  have step: "\<forall>d b. has_updates d \<longrightarrow> apply_update ?u (body d) = Some b
      \<longrightarrow> has_updates (d\<lparr>body := b\<rparr>)"
    by (blast intro: set_status_keeps_updates)
  have "list_all has_updates ts" if "update_one (db ''task'') [(''_id'', Oid i)] ?u = Inr (n, ts)"
    for n ts i
    using update_one_preserves [OF step _ that] wf by (simp add: tasks_wf_def)
  with wf show ?thesis
    by (auto simp: set_task_status_def oid_def tasks_wf_def split: option.splits sum.splits)
qed

lemma add_task_update_tasks_wf:
  "tasks_wf db \<Longrightarrow> tasks_wf (snd (add_task_update env now1 now2 task_id update db))"
proof -
  assume wf: "tasks_wf db"
  have step: "\<forall>d b. has_updates d
      \<longrightarrow> apply_update \<lparr>op_push = [(''updates'', e)], op_set = [(''updated_at'', Datetime now2)]\<rparr>
            (body d) = Some b
      \<longrightarrow> has_updates (d\<lparr>body := b\<rparr>)" for e :: "'a bson"
    by (blast intro: push_keeps_updates)
  have "list_all has_updates ts"
    if "update_one (db ''task'') [(''_id'', Oid i)]
          \<lparr>op_push = [(''updates'', e)], op_set = [(''updated_at'', Datetime now2)]\<rparr> = Inr (n, ts)"
    for n ts i e
    using update_one_preserves [OF step _ that] wf by (simp add: tasks_wf_def)
  with wf show ?thesis
    by (auto simp: add_task_update_def Let_def oid_def tasks_wf_def split: option.splits sum.splits)
qed

lemma create_task_tasks_wf:
  "tasks_wf db \<Longrightarrow> tasks_wf (snd (create_task env now1 now2 new_id task db))"
  by (simp add: create_task_def insert_one_def tasks_wf_def has_updates_iff Task_model_dump_def
      update_conv')

lemma register_collections:
  "snd (register env now1 now2 new_id payload db) ''task'' = db ''task''"
  by (simp add: register_def insert_one_def)

lemma create_department_collections:
  "snd (create_department env now1 now2 new_id dep db) ''task'' = db ''task''"
  "snd (create_department env now1 now2 new_id dep db) ''user'' = db ''user''"
  by (simp_all add: create_department_def insert_one_def)

lemma reachable_tasks_wf: "reachable env db \<Longrightarrow> tasks_wf db"
proof (induction rule: reachable.induct)
  case initially
  show ?case by (simp add: tasks_wf_def)
next
  case (by_register db now1 now2 new_id payload)
  then show ?case by (simp add: tasks_wf_def register_collections)
next
  case (by_create_department db now1 now2 new_id dep)
  then show ?case by (simp add: tasks_wf_def create_department_collections)
next
  case (by_create_task db now1 now2 new_id task)
  then show ?case by (simp add: create_task_tasks_wf)
next
  case (by_add_task_update db now1 now2 task_id update)
  then show ?case by (simp add: add_task_update_tasks_wf)
next
  case (by_set_task_status db now task_id status)
  then show ?case by (simp add: set_task_status_tasks_wf)
qed

text \<open>
  C4. For a task id that names an existing task, Add Task Update succeeds; the task the
  filter on \<^verbatim>\<open>_id\<close> selects gets its prior sequence of updates with the new entry appended
  last (the prior entries as they were, in their order) and \<^verbatim>\<open>updated_at\<close> set to the clock
  reading, and keeps every other key; nothing else in the store changes. The entry's
  \<^verbatim>\<open>created_at\<close> is the caller's value when there is one and the clock reading when there is
  none. The prior sequence is the array under \<^verbatim>\<open>updates\<close>, or empty for a task without that
  key; every task of every store the handlers produce holds such an array.
\<close>

theorem add_task_update_spec:
  "(ObjectId env task_id = Some i \<and> db ''task'' = ts1 @ d # ts2 \<and> doc_id d = i
     \<and> (\<forall>x \<in> set ts1. doc_id x \<noteq> i) \<and> prior_updates d = Some us
   \<longrightarrow> (\<exists>d' entry.
          add_task_update env now1 now2 task_id update db
            = (Inr [(''message'', Str ''Update added'')], db(''task'' := ts1 @ d' # ts2))
          \<and> doc_id d' = i
          \<and> lookup d' ''updates'' = Some (Array (us @ [Dict entry]))
          \<and> lookup d' ''updated_at'' = Some (Datetime now2)
          \<and> (\<forall>k. k \<noteq> ''updates'' \<and> k \<noteq> ''updated_at'' \<longrightarrow> lookup d' k = lookup d k)
          \<and> entry = [(''user_id'', Str (upd_user_id update)),
                      (''note'', opt_str (upd_note update)),
                      (''progress'', opt_int (upd_progress update)),
                      (''created_at'',
                         Datetime (case upd_created_at update of None \<Rightarrow> now1 | Some t \<Rightarrow> t))]))
   \<and> (reachable env db
      \<longrightarrow> (\<forall>d \<in> set (db ''task''). \<exists>us.
             lookup d ''updates'' = Some (Array us) \<and> prior_updates d = Some us))"
proof (intro conjI impI)
  assume a: "ObjectId env task_id = Some i \<and> db ''task'' = ts1 @ d # ts2 \<and> doc_id d = i
     \<and> (\<forall>x \<in> set ts1. doc_id x \<noteq> i) \<and> prior_updates d = Some us"
  let ?entry = "[(''user_id'', Str (upd_user_id update)),
                 (''note'', opt_str (upd_note update)),
                 (''progress'', opt_int (upd_progress update)),
                 (''created_at'',
                    Datetime (case upd_created_at update of None \<Rightarrow> now1 | Some t \<Rightarrow> t))]"
  let ?b = "AList.update ''updated_at'' (Datetime now2)
              (AList.update ''updates'' (Array (us @ [Dict ?entry])) (body d))"
  let ?d' = "d\<lparr>body := ?b\<rparr>"
  have upd: "(if \<not> truthy (get_default (TaskUpdateEntry_model_dump update) ''created_at'' Null)
              then AList.update ''created_at'' (Datetime now1) (TaskUpdateEntry_model_dump update)
              else TaskUpdateEntry_model_dump update) = (?entry :: 'a dict)"
    by (cases "upd_created_at update")
       (simp_all add: dump_created_at truthy_opt_datetime,
        simp_all add: TaskUpdateEntry_model_dump_def opt_datetime_def)
  from a have prior: "prior_updates d = Some us"
    by simp
  have u: "update_one (ts1 @ d # ts2) [(''_id'', Oid i)]
             \<lparr>op_push = [(''updates'', Dict ?entry)], op_set = [(''updated_at'', Datetime now2)]\<rparr>
           = Inr (1, ts1 @ ?d' # ts2)"
    using a by (simp add: update_one_first matches_id push_prior_updates [OF prior])
  have r: "add_task_update env now1 now2 task_id update db
            = (Inr [(''message'', Str ''Update added'')], db(''task'' := ts1 @ ?d' # ts2))"
    using a unfolding add_task_update_def Let_def upd by (simp add: oid_def u)
  have frame: "\<forall>k. k \<noteq> ''updates'' \<and> k \<noteq> ''updated_at'' \<longrightarrow> lookup ?d' k = lookup d k"
    by (simp add: lookup_def update_conv')
  have "doc_id ?d' = i" "lookup ?d' ''updates'' = Some (Array (us @ [Dict ?entry]))"
       "lookup ?d' ''updated_at'' = Some (Datetime now2)"
    using a by (simp_all add: lookup_def update_conv')
  with r frame
  show "\<exists>d' entry.
          add_task_update env now1 now2 task_id update db
            = (Inr [(''message'', Str ''Update added'')], db(''task'' := ts1 @ d' # ts2))
          \<and> doc_id d' = i
          \<and> lookup d' ''updates'' = Some (Array (us @ [Dict entry]))
          \<and> lookup d' ''updated_at'' = Some (Datetime now2)
          \<and> (\<forall>k. k \<noteq> ''updates'' \<and> k \<noteq> ''updated_at'' \<longrightarrow> lookup d' k = lookup d k)
          \<and> entry = [(''user_id'', Str (upd_user_id update)),
                      (''note'', opt_str (upd_note update)),
                      (''progress'', opt_int (upd_progress update)),
                      (''created_at'',
                         Datetime (case upd_created_at update of None \<Rightarrow> now1 | Some t \<Rightarrow> t))]"
    by blast
next
  assume "reachable env db"
  then have "list_all has_updates (db ''task'')"
    using reachable_tasks_wf [of env db] by (simp add: tasks_wf_def)
  then show "\<forall>d \<in> set (db ''task''). \<exists>us.
             lookup d ''updates'' = Some (Array us) \<and> prior_updates d = Some us"
    by (auto simp: list_all_iff has_updates_iff prior_updates_cases lookup_def)
qed

text \<open>
  On a store with the tasks \<^verbatim>\<open>t1\<close> and \<^verbatim>\<open>t2\<close>, where \<^verbatim>\<open>t2\<close> already holds one entry: an entry
  without \<^verbatim>\<open>created_at\<close> is appended after the prior one with the clock reading 600, an entry
  dated 42 keeps its date, and \<^verbatim>\<open>t1\<close> stays as it is. A task without the key \<^verbatim>\<open>updates\<close> gets
  the entry as its only one. The store after \<^verbatim>\<open>create_task\<close> and \<^verbatim>\<open>add_task_update\<close> on the
  empty store holds a task with an array of updates.
\<close>

theorem add_task_update_spec_witness:
  "ObjectId ex_env ''t2'' = Some 2
   \<and> ex_db2 ''task'' = [ex_task] @ ex_task2 # []
   \<and> doc_id ex_task \<noteq> 2 \<and> doc_id ex_task2 = 2
   \<and> prior_updates ex_task2 = Some [Dict ex_entry]
   \<and> (\<exists>d'. add_task_update ex_env 600 601 ''t2'' ex_update ex_db2
             = (Inr [(''message'', Str ''Update added'')], ex_db2(''task'' := [ex_task] @ d' # []))
         \<and> doc_id d' = 2
         \<and> lookup d' ''updates''
             = Some (Array [Dict ex_entry,
                            Dict [(''user_id'', Str ''t1''), (''note'', Str ''half''),
                                  (''progress'', Integer 50), (''created_at'', Datetime 600)]])
         \<and> lookup d' ''updated_at'' = Some (Datetime 601)
         \<and> (\<forall>k. k \<noteq> ''updates'' \<and> k \<noteq> ''updated_at'' \<longrightarrow> lookup d' k = lookup ex_task2 k))
   \<and> (\<exists>d'. add_task_update ex_env 600 601 ''t2'' ex_update_dated ex_db2
             = (Inr [(''message'', Str ''Update added'')], ex_db2(''task'' := [ex_task] @ d' # []))
         \<and> doc_id d' = 2
         \<and> lookup d' ''updates''
             = Some (Array [Dict ex_entry,
                            Dict [(''user_id'', Str ''t2''), (''note'', Null),
                                  (''progress'', Null), (''created_at'', Datetime 42)]])
         \<and> lookup d' ''updated_at'' = Some (Datetime 601)
         \<and> (\<forall>k. k \<noteq> ''updates'' \<and> k \<noteq> ''updated_at'' \<longrightarrow> lookup d' k = lookup ex_task2 k))
   \<and> prior_updates ex_bare = Some []
   \<and> (\<exists>d'. add_task_update ex_env 600 601 ''t2'' ex_update (ex_db2(''task'' := [ex_task, ex_bare]))
             = (Inr [(''message'', Str ''Update added'')], ex_db2(''task'' := [ex_task] @ d' # []))
         \<and> doc_id d' = 2
         \<and> lookup d' ''updates''
             = Some (Array [Dict [(''user_id'', Str ''t1''), (''note'', Str ''half''),
                                  (''progress'', Integer 50), (''created_at'', Datetime 600)]])
         \<and> lookup d' ''title'' = Some (Str ''Bare''))
   \<and> reachable ex_env
        (snd (add_task_update ex_env 600 601 ''t1'' ex_update
               (snd (create_task ex_env 200 201 1 ex_new_task (\<lambda>c. [])))))
   \<and> (\<exists>d \<in> set (snd (add_task_update ex_env 600 601 ''t1'' ex_update
                       (snd (create_task ex_env 200 201 1 ex_new_task (\<lambda>c. [])))) ''task'').
         \<exists>us. lookup d ''updates'' = Some (Array us) \<and> prior_updates d = Some us)"
proof -
  let ?new = "[(''user_id'', Str ''t1''), (''note'', Str ''half''),
               (''progress'', Integer 50), (''created_at'', Datetime 600)] :: nat dict"
  let ?dated = "[(''user_id'', Str ''t2''), (''note'', Null),
                 (''progress'', Null), (''created_at'', Datetime 42)] :: nat dict"
  let ?db3 = "ex_db2(''task'' := [ex_task, ex_bare])"
  let ?dbr = "snd (add_task_update ex_env 600 601 ''t1'' ex_update
                (snd (create_task ex_env 200 201 1 ex_new_task (\<lambda>c. []))))"
  have i: "ObjectId ex_env ''t2'' = Some 2"
    by (simp add: ex_env_def)
  have s: "ex_db2 ''task'' = [ex_task] @ ex_task2 # []"
    by (simp add: ex_db2_def)
  have ids: "doc_id ex_task \<noteq> 2" "doc_id ex_task2 = 2" "doc_id ex_bare = 2"
    by (simp_all add: ex_task_def ex_task2_def ex_bare_def)
  have p: "prior_updates ex_task2 = Some [Dict ex_entry]"
    by (simp add: prior_updates_def lookup_def ex_task2_def)
  have pb: "prior_updates ex_bare = Some []"
    by (simp add: prior_updates_def lookup_def ex_bare_def)
  have h: "ObjectId ex_env ''t2'' = Some 2 \<and> ex_db2 ''task'' = [ex_task] @ ex_task2 # []
      \<and> doc_id ex_task2 = 2 \<and> (\<forall>x \<in> set [ex_task]. doc_id x \<noteq> 2)
      \<and> prior_updates ex_task2 = Some [Dict ex_entry]"
    using i s ids p by simp
  have hb: "ObjectId ex_env ''t2'' = Some 2 \<and> ?db3 ''task'' = [ex_task] @ ex_bare # []
      \<and> doc_id ex_bare = 2 \<and> (\<forall>x \<in> set [ex_task]. doc_id x \<noteq> 2)
      \<and> prior_updates ex_bare = Some []"
    using i ids pb by simp
  have e1: "[(''user_id'', Str (upd_user_id ex_update)),
             (''note'', opt_str (upd_note ex_update)),
             (''progress'', opt_int (upd_progress ex_update)),
             (''created_at'',
                Datetime (case upd_created_at ex_update of None \<Rightarrow> 600 | Some t \<Rightarrow> t))] = ?new"
    by (simp add: ex_update_def opt_str_def opt_int_def)
  have e2: "[(''user_id'', Str (upd_user_id ex_update_dated)),
             (''note'', opt_str (upd_note ex_update_dated)),
             (''progress'', opt_int (upd_progress ex_update_dated)),
             (''created_at'',
                Datetime (case upd_created_at ex_update_dated of None \<Rightarrow> 600 | Some t \<Rightarrow> t))]
            = ?dated"
    by (simp add: ex_update_dated_def opt_str_def opt_int_def)
  note a = add_task_update_spec [where env = ex_env and task_id = "''t2''" and i = 2
      and db = ex_db2 and ?ts1.0 = "[ex_task]" and d = ex_task2 and ?ts2.0 = "[]"
      and us = "[Dict ex_entry]" and ?now1.0 = 600 and ?now2.0 = 601 and update = ex_update,
      THEN conjunct1, rule_format, OF h, unfolded e1]
  note b = add_task_update_spec [where env = ex_env and task_id = "''t2''" and i = 2
      and db = ex_db2 and ?ts1.0 = "[ex_task]" and d = ex_task2 and ?ts2.0 = "[]"
      and us = "[Dict ex_entry]" and ?now1.0 = 600 and ?now2.0 = 601
      and update = ex_update_dated,
      THEN conjunct1, rule_format, OF h, unfolded e2]
  note c = add_task_update_spec [where env = ex_env and task_id = "''t2''" and i = 2
      and db = ?db3 and ?ts1.0 = "[ex_task]" and d = ex_bare and ?ts2.0 = "[]"
      and us = "[]" and ?now1.0 = 600 and ?now2.0 = 601 and update = ex_update,
      THEN conjunct1, rule_format, OF hb, unfolded e1]
  from a have 1: "\<exists>d'. add_task_update ex_env 600 601 ''t2'' ex_update ex_db2
             = (Inr [(''message'', Str ''Update added'')], ex_db2(''task'' := [ex_task] @ d' # []))
         \<and> doc_id d' = 2
         \<and> lookup d' ''updates'' = Some (Array [Dict ex_entry, Dict ?new])
         \<and> lookup d' ''updated_at'' = Some (Datetime 601)
         \<and> (\<forall>k. k \<noteq> ''updates'' \<and> k \<noteq> ''updated_at'' \<longrightarrow> lookup d' k = lookup ex_task2 k)"
    by auto
  from b have 2: "\<exists>d'. add_task_update ex_env 600 601 ''t2'' ex_update_dated ex_db2
             = (Inr [(''message'', Str ''Update added'')], ex_db2(''task'' := [ex_task] @ d' # []))
         \<and> doc_id d' = 2
         \<and> lookup d' ''updates'' = Some (Array [Dict ex_entry, Dict ?dated])
         \<and> lookup d' ''updated_at'' = Some (Datetime 601)
         \<and> (\<forall>k. k \<noteq> ''updates'' \<and> k \<noteq> ''updated_at'' \<longrightarrow> lookup d' k = lookup ex_task2 k)"
    by auto
  from c obtain d' where
    c1: "add_task_update ex_env 600 601 ''t2'' ex_update ?db3
           = (Inr [(''message'', Str ''Update added'')], ?db3(''task'' := [ex_task] @ d' # []))"
    and c2: "doc_id d' = 2"
    and c3: "lookup d' ''updates'' = Some (Array ([] @ [Dict ?new]))"
    and c4: "\<forall>k. k \<noteq> ''updates'' \<and> k \<noteq> ''updated_at'' \<longrightarrow> lookup d' k = lookup ex_bare k"
    by blast
  from c4 have "lookup d' ''title'' = lookup ex_bare ''title''"
    by simp
  then have c5: "lookup d' ''title'' = Some (Str ''Bare'')"
    by (simp add: lookup_def ex_bare_def)
  from c1 c2 c3 c5 have 3: "\<exists>d'. add_task_update ex_env 600 601 ''t2'' ex_update ?db3
             = (Inr [(''message'', Str ''Update added'')], ex_db2(''task'' := [ex_task] @ d' # []))
         \<and> doc_id d' = 2
         \<and> lookup d' ''updates'' = Some (Array [Dict ?new])
         \<and> lookup d' ''title'' = Some (Str ''Bare'')"
    by auto
  have r: "reachable ex_env ?dbr"
    by (intro reachable.by_add_task_update reachable.by_create_task reachable.initially)
  have n: "?dbr ''task'' \<noteq> []"
    by (simp add: add_task_update_def create_task_def insert_one_def oid_def ex_env_def
        matches_def lookup_def apply_update_def Task_model_dump_def ex_new_task_def Let_def)
  from r add_task_update_spec [where env = ex_env and db = ?dbr, THEN conjunct2]
  have "\<forall>d \<in> set (?dbr ''task''). \<exists>us.
          lookup d ''updates'' = Some (Array us) \<and> prior_updates d = Some us"
    by blast
  with n have 4: "\<exists>d \<in> set (?dbr ''task''). \<exists>us.
          lookup d ''updates'' = Some (Array us) \<and> prior_updates d = Some us"
    by (cases "?dbr ''task''") simp_all
  from i s ids(1,2) p 1 2 pb 3 r 4 show ?thesis
    by (intro conjI)
qed

text \<open>
  C9. With a status outside the three values, Set Task Status answers with the
  invalid-status error (status 400) and the unchanged store for every task id and every
  identifier parser: the id is never parsed and the store never consulted. The errors it
  pre-empts are the malformed-id error and the not-found error, which a valid status meets.
\<close>

theorem set_task_status_precedence:
  "(status \<notin> set [''PENDING'', ''IN_PROGRESS'', ''COMPLETED'']
     \<longrightarrow> set_task_status env now task_id status db
           = (Inl (HTTPException 400 ''Invalid status''), db))
   \<and> (status \<in> set [''PENDING'', ''IN_PROGRESS'', ''COMPLETED''] \<and> ObjectId env task_id = None
     \<longrightarrow> set_task_status env now task_id status db
           = (Inl (HTTPException 400 ''Invalid id format''), db))
   \<and> (status \<in> set [''PENDING'', ''IN_PROGRESS'', ''COMPLETED''] \<and> ObjectId env task_id = Some i
        \<and> (\<forall>d \<in> set (db ''task''). doc_id d \<noteq> i)
     \<longrightarrow> set_task_status env now task_id status db
           = (Inl (HTTPException 404 ''Task not found''), db))"
proof (intro conjI impI)
  assume "status \<notin> set [''PENDING'', ''IN_PROGRESS'', ''COMPLETED'']"
  then show "set_task_status env now task_id status db
           = (Inl (HTTPException 400 ''Invalid status''), db)"
    by (simp add: set_task_status_def)
next
  assume "status \<in> set [''PENDING'', ''IN_PROGRESS'', ''COMPLETED''] \<and> ObjectId env task_id = None"
  then show "set_task_status env now task_id status db
           = (Inl (HTTPException 400 ''Invalid id format''), db)"
    by (simp add: set_task_status_def oid_def)
next
  assume a: "status \<in> set [''PENDING'', ''IN_PROGRESS'', ''COMPLETED''] \<and> ObjectId env task_id = Some i
        \<and> (\<forall>d \<in> set (db ''task''). doc_id d \<noteq> i)"
  then have "update_one (db ''task'') [(''_id'', Oid i)]
             \<lparr>op_push = [], op_set = [(''status'', Str status), (''updated_at'', Datetime now)]\<rparr>
           = Inr (0, db ''task'')"
    by (simp add: update_one_no_match matches_id)
  with a show "set_task_status env now task_id status db
           = (Inl (HTTPException 404 ''Task not found''), db)"
    by (simp add: set_task_status_def oid_def)
qed

text \<open>
  On the example store: the malformed id \<^verbatim>\<open>zz\<close> and the unknown id \<^verbatim>\<open>t2\<close> both get the
  invalid-status error under the status \<^verbatim>\<open>DONE\<close>, and their own errors under \<^verbatim>\<open>PENDING\<close>.
\<close>

theorem set_task_status_precedence_witness:
  "ObjectId ex_env ''zz'' = None \<and> ObjectId ex_env ''t2'' = Some 2
   \<and> set_task_status ex_env 500 ''zz'' ''DONE'' ex_db
       = (Inl (HTTPException 400 ''Invalid status''), ex_db)
   \<and> set_task_status ex_env 500 ''t2'' ''DONE'' ex_db
       = (Inl (HTTPException 400 ''Invalid status''), ex_db)
   \<and> set_task_status ex_env 500 ''zz'' ''PENDING'' ex_db
       = (Inl (HTTPException 400 ''Invalid id format''), ex_db)
   \<and> set_task_status ex_env 500 ''t2'' ''PENDING'' ex_db
       = (Inl (HTTPException 404 ''Task not found''), ex_db)"
proof -
  have h: "ObjectId ex_env ''zz'' = None \<and> ObjectId ex_env ''t2'' = Some 2
      \<and> (\<forall>d \<in> set (ex_db ''task''). doc_id d \<noteq> 2)"
    by (simp add: ex_env_def ex_db_def ex_task_def)
  have s: "''DONE'' \<notin> set [''PENDING'', ''IN_PROGRESS'', ''COMPLETED'']
      \<and> ''PENDING'' \<in> set [''PENDING'', ''IN_PROGRESS'', ''COMPLETED'']"
    by simp
  from h s
    set_task_status_precedence [of "''DONE''" ex_env 500 "''zz''" ex_db 2]
    set_task_status_precedence [of "''DONE''" ex_env 500 "''t2''" ex_db 2]
    set_task_status_precedence [of "''PENDING''" ex_env 500 "''zz''" ex_db 2]
    set_task_status_precedence [of "''PENDING''" ex_env 500 "''t2''" ex_db 2]
  show ?thesis by blast
qed

section \<open>Login\<close>





lemma strip_user_keys:
  "map_of (strip_user env u) ''password_hash'' = None"
  "map_of (strip_user env u) ''id'' = Some (Str (oid_str env (doc_id u)))"
  "k \<noteq> ''id'' \<Longrightarrow> k \<noteq> ''password_hash'' \<Longrightarrow> map_of (strip_user env u) k = map_of (body u) k"
  by (simp_all add: strip_user_def expose_id_def delete_conv' update_conv')








section \<open>Listing users and tasks\<close>

lemma add_filter_empty: "add_filter k (Some '''') q = add_filter k None q"
  by (simp add: add_filter_def)

lemma find_docs_all: "find_docs coll [] = coll"
  by (simp add: find_docs_def matches_def)

lemma users_query:
  "matches (add_filter ''department_id'' department_id (add_filter ''role'' role [])) u
     \<longleftrightarrow> nonempty_filter ''role'' role u \<and> nonempty_filter ''department_id'' department_id u"
  by (cases role; cases department_id)
     (auto simp: add_filter_def nonempty_filter_def matches_def)

lemma nonempty_exact:
  "v \<noteq> Some '''' \<Longrightarrow> nonempty_filter k v u = exact_filter k v u"
  by (cases v) (auto simp: nonempty_filter_def exact_filter_def)

text \<open>
  The specification's List Users differs from the handler on an empty filter: on the store
  with Alice (department \<^verbatim>\<open>d1\<close>), Bob (no department) and Carol (department the empty
  string), the filter \<^verbatim>\<open>department_id\<close> = empty string selects Carol alone when read as an exact
  match, and the handler returns all three users.
\<close>

theorem list_users_exact_counterexample:
  "list_users_exact ex_env None (Some '''') ex_db3 = [strip_user ex_env ex_carol]
   \<and> list_users ex_env None (Some '''') ex_db3
       = [strip_user ex_env ex_alice, strip_user ex_env ex_bob, strip_user ex_env ex_carol]
   \<and> lookup ex_alice ''department_id'' = Some (Str ''d1'')
   \<and> lookup ex_bob ''department_id'' = Some Null
   \<and> list_users ex_env None (Some '''') ex_db3 \<noteq> list_users_exact ex_env None (Some '''') ex_db3"
  by (simp add: list_users_exact_def list_users_def exact_filter_def add_filter_def find_docs_def
      matches_def lookup_def ex_db3_def ex_alice_def ex_bob_def ex_carol_def)

text \<open>
  C7, amended. List Users returns, in store order, exactly the users that match every filter
  that is supplied and not the empty string, by equality with the stored string; a filter
  that is absent or the empty string imposes no constraint. When no filter is the empty
  string this is the exact match of the specification. Every returned record is a stored
  user's record without the key \<^verbatim>\<open>password_hash\<close>, with the store identifier as a string
  under \<^verbatim>\<open>id\<close>, and otherwise unchanged.
\<close>

theorem list_users_spec:
  "list_users env role department_id db
     = map (strip_user env)
         (filter (\<lambda>u. nonempty_filter ''role'' role u
                     \<and> nonempty_filter ''department_id'' department_id u)
            (db ''user''))
   \<and> (role \<noteq> Some '''' \<and> department_id \<noteq> Some ''''
        \<longrightarrow> list_users env role department_id db = list_users_exact env role department_id db)
   \<and> (\<forall>r \<in> set (list_users env role department_id db).
         \<exists>u \<in> set (db ''user'').
            map_of r ''password_hash'' = None
            \<and> map_of r ''id'' = Some (Str (oid_str env (doc_id u)))
            \<and> (\<forall>k. k \<noteq> ''id'' \<and> k \<noteq> ''password_hash'' \<longrightarrow> map_of r k = map_of (body u) k))"
proof (intro conjI impI ballI)
  let ?sel = "\<lambda>u. nonempty_filter ''role'' role u
                  \<and> nonempty_filter ''department_id'' department_id u"
  have q: "find_docs (db ''user'')
             (add_filter ''department_id'' department_id (add_filter ''role'' role []))
           = filter ?sel (db ''user'')"
    unfolding find_docs_def by (rule filter_cong) (simp_all add: users_query)
  show eq: "list_users env role department_id db = map (strip_user env) (filter ?sel (db ''user''))"
    by (simp add: list_users_def q)
  show "list_users env role department_id db = list_users_exact env role department_id db"
    if "role \<noteq> Some '''' \<and> department_id \<noteq> Some ''''"
    using that by (simp add: eq list_users_exact_def nonempty_exact)
  show "\<exists>u \<in> set (db ''user'').
            map_of r ''password_hash'' = None
            \<and> map_of r ''id'' = Some (Str (oid_str env (doc_id u)))
            \<and> (\<forall>k. k \<noteq> ''id'' \<and> k \<noteq> ''password_hash'' \<longrightarrow> map_of r k = map_of (body u) k)"
    if "r \<in> set (list_users env role department_id db)" for r
  proof -
    from that obtain u where u: "u \<in> set (db ''user'')" and r: "r = strip_user env u"
      unfolding eq by auto
    from strip_user_keys [where env = env and u = u]
    have "map_of (strip_user env u) ''password_hash'' = None
        \<and> map_of (strip_user env u) ''id'' = Some (Str (oid_str env (doc_id u)))
        \<and> (\<forall>k. k \<noteq> ''id'' \<and> k \<noteq> ''password_hash''
              \<longrightarrow> map_of (strip_user env u) k = map_of (body u) k)"
      by blast
    with u r show ?thesis by blast
  qed
qed

text \<open>
  On the store with Alice, Bob and Carol: the managers of department \<^verbatim>\<open>d1\<close> are Alice alone
  (Bob is no manager, Carol is in another department), the managers are Alice and Carol, and
  Alice's record comes without the hash and with the identifier \<^verbatim>\<open>t1\<close>.
\<close>

theorem list_users_spec_witness:
  "list_users ex_env (Some ''MANAGER'') (Some ''d1'') ex_db3
     = [[(''name'', Str ''Alice''),
         (''email'', Str ''a@x.io''),
         (''role'', Str ''MANAGER''),
         (''department_id'', Str ''d1''),
         (''created_at'', Datetime 100),
         (''updated_at'', Datetime 100),
         (''id'', Str ''t1'')]]
   \<and> list_users ex_env (Some ''MANAGER'') None ex_db3
       = [strip_user ex_env ex_alice, strip_user ex_env ex_carol]
   \<and> list_users ex_env None None ex_db3
       = [strip_user ex_env ex_alice, strip_user ex_env ex_bob, strip_user ex_env ex_carol]
   \<and> Some ''MANAGER'' \<noteq> Some '''' \<and> Some ''d1'' \<noteq> Some ''''
   \<and> list_users ex_env (Some ''MANAGER'') (Some ''d1'') ex_db3
       = list_users_exact ex_env (Some ''MANAGER'') (Some ''d1'') ex_db3
   \<and> (\<exists>r \<in> set (list_users ex_env (Some ''MANAGER'') (Some ''d1'') ex_db3).
         \<exists>u \<in> set (ex_db3 ''user'').
            map_of r ''password_hash'' = None
            \<and> map_of r ''id'' = Some (Str (oid_str ex_env (doc_id u)))
            \<and> map_of r ''email'' = map_of (body u) ''email'')"
proof -
  note a = list_users_spec [of ex_env "Some ''MANAGER''" "Some ''d1''" ex_db3]
  note b = list_users_spec [of ex_env "Some ''MANAGER''" None ex_db3]
  note c = list_users_spec [of ex_env None None ex_db3]
  have 1: "list_users ex_env (Some ''MANAGER'') (Some ''d1'') ex_db3
     = [[(''name'', Str ''Alice''),
         (''email'', Str ''a@x.io''),
         (''role'', Str ''MANAGER''),
         (''department_id'', Str ''d1''),
         (''created_at'', Datetime 100),
         (''updated_at'', Datetime 100),
         (''id'', Str ''t1'')]]"
    unfolding a [THEN conjunct1]
    by (simp add: nonempty_filter_def lookup_def ex_db3_def ex_alice_def ex_bob_def ex_carol_def
        strip_user_def expose_id_def ex_env_def)
  have 2: "list_users ex_env (Some ''MANAGER'') None ex_db3
       = [strip_user ex_env ex_alice, strip_user ex_env ex_carol]"
    unfolding b [THEN conjunct1]
    by (simp add: nonempty_filter_def lookup_def ex_db3_def ex_alice_def ex_bob_def ex_carol_def)
  have 3: "list_users ex_env None None ex_db3
       = [strip_user ex_env ex_alice, strip_user ex_env ex_bob, strip_user ex_env ex_carol]"
    unfolding c [THEN conjunct1]
    by (simp add: nonempty_filter_def ex_db3_def)
  have 4: "Some ''MANAGER'' \<noteq> Some '''' \<and> Some ''d1'' \<noteq> Some ''''"
    by simp
  with a [THEN conjunct2, THEN conjunct1]
  have 5: "list_users ex_env (Some ''MANAGER'') (Some ''d1'') ex_db3
       = list_users_exact ex_env (Some ''MANAGER'') (Some ''d1'') ex_db3"
    by blast
  have "list_users ex_env (Some ''MANAGER'') (Some ''d1'') ex_db3 \<noteq> []"
    by (simp add: 1)
  then obtain r where r: "r \<in> set (list_users ex_env (Some ''MANAGER'') (Some ''d1'') ex_db3)"
    by (cases "list_users ex_env (Some ''MANAGER'') (Some ''d1'') ex_db3") auto
  with a [THEN conjunct2, THEN conjunct2]
  obtain u where "u \<in> set (ex_db3 ''user'')" "map_of r ''password_hash'' = None"
    "map_of r ''id'' = Some (Str (oid_str ex_env (doc_id u)))"
    "\<forall>k. k \<noteq> ''id'' \<and> k \<noteq> ''password_hash'' \<longrightarrow> map_of r k = map_of (body u) k"
    by blast
  then have "u \<in> set (ex_db3 ''user'') \<and> map_of r ''password_hash'' = None
      \<and> map_of r ''id'' = Some (Str (oid_str ex_env (doc_id u)))
      \<and> map_of r ''email'' = map_of (body u) ''email''"
    by simp
  with r have 6: "\<exists>r \<in> set (list_users ex_env (Some ''MANAGER'') (Some ''d1'') ex_db3).
         \<exists>u \<in> set (ex_db3 ''user'').
            map_of r ''password_hash'' = None
            \<and> map_of r ''id'' = Some (Str (oid_str ex_env (doc_id u)))
            \<and> map_of r ''email'' = map_of (body u) ''email''"
    by blast
  from 1 2 3 4 5 6 show ?thesis
    by (intro conjI) simp_all
qed

lemma list_tasks_query:
  "list_tasks env (Some '''') assigned_to department_id db
     = list_tasks env None assigned_to department_id db"
  "list_tasks env status (Some '''') department_id db
     = list_tasks env status None department_id db"
  "list_tasks env status assigned_to (Some '''') db
     = list_tasks env status assigned_to None db"
  by (simp_all add: list_tasks_def add_filter_empty)

text \<open>
  C10. In List Users and List Tasks a filter whose value is the empty string gives the same
  result as the same call with that filter absent, whatever the other filters, the store and
  the collaborators are; with every filter empty the whole collection is returned.
\<close>

theorem empty_filter_spec:
  "list_users env (Some '''') department_id db = list_users env None department_id db
   \<and> list_users env role (Some '''') db = list_users env role None db
   \<and> list_tasks env (Some '''') assigned_to department_id db
       = list_tasks env None assigned_to department_id db
   \<and> list_tasks env status (Some '''') department_id db
       = list_tasks env status None department_id db
   \<and> list_tasks env status assigned_to (Some '''') db
       = list_tasks env status assigned_to None db
   \<and> list_users env (Some '''') (Some '''') db = map (strip_user env) (db ''user'')
   \<and> list_tasks env (Some '''') (Some '''') (Some '''') db
       = map (expose_id env) (sort_docs env ''created_at'' (- 1) (db ''task''))"
proof (intro conjI)
  show "list_users env (Some '''') department_id db = list_users env None department_id db"
    by (simp add: list_users_def add_filter_empty)
  show "list_users env role (Some '''') db = list_users env role None db"
    by (simp add: list_users_def add_filter_empty)
  show "list_tasks env (Some '''') assigned_to department_id db
       = list_tasks env None assigned_to department_id db"
    by (rule list_tasks_query)
  show "list_tasks env status (Some '''') department_id db
       = list_tasks env status None department_id db"
    by (rule list_tasks_query)
  show "list_tasks env status assigned_to (Some '''') db
       = list_tasks env status assigned_to None db"
    by (rule list_tasks_query)
  show "list_users env (Some '''') (Some '''') db = map (strip_user env) (db ''user'')"
    by (simp add: list_users_def add_filter_def find_docs_all)
  show "list_tasks env (Some '''') (Some '''') (Some '''') db
       = map (expose_id env) (sort_docs env ''created_at'' (- 1) (db ''task''))"
    by (simp add: list_tasks_def add_filter_def find_docs_all)
qed

text \<open>
  On the store with Alice, Bob and Carol and the tasks \<^verbatim>\<open>t1\<close> and \<^verbatim>\<open>t2\<close>: the empty
  \<^verbatim>\<open>department_id\<close> returns all three users, not Carol alone, whose department is the empty
  string; the empty \<^verbatim>\<open>role\<close> beside the department \<^verbatim>\<open>d1\<close> returns Alice; the empty \<^verbatim>\<open>status\<close>
  beside the assignee \<^verbatim>\<open>t1\<close> returns both tasks, latest first.
\<close>

theorem empty_filter_spec_witness:
  "list_users ex_env None (Some '''') ex_db3
     = [strip_user ex_env ex_alice, strip_user ex_env ex_bob, strip_user ex_env ex_carol]
   \<and> lookup ex_carol ''department_id'' = Some (Str '''')
   \<and> list_users ex_env (Some '''') (Some ''d1'') ex_db3 = [strip_user ex_env ex_alice]
   \<and> list_tasks ex_env (Some '''') (Some ''t1'') None ex_db3
       = [expose_id ex_env ex_task2, expose_id ex_env ex_task]
   \<and> list_tasks ex_env (Some ''PENDING'') (Some '''') (Some '''') ex_db3
       = [expose_id ex_env ex_task]
   \<and> list_tasks ex_env (Some '''') (Some '''') (Some '''') ex_db3
       = [expose_id ex_env ex_task2, expose_id ex_env ex_task]"
proof -
  have u: "list_users ex_env None None ex_db3
     = [strip_user ex_env ex_alice, strip_user ex_env ex_bob, strip_user ex_env ex_carol]"
    by (simp add: list_users_def add_filter_def find_docs_all ex_db3_def)
  have d: "list_users ex_env None (Some ''d1'') ex_db3 = [strip_user ex_env ex_alice]"
    by (simp add: list_users_def add_filter_def find_docs_def matches_def lookup_def
        ex_db3_def ex_alice_def ex_bob_def ex_carol_def)
  have t: "list_tasks ex_env None (Some ''t1'') None ex_db3
       = [expose_id ex_env ex_task2, expose_id ex_env ex_task]"
    by (simp add: list_tasks_def add_filter_def find_docs_def matches_def lookup_def
        ex_db3_def ex_task_def ex_task2_def ex_env_def)
  have p: "list_tasks ex_env (Some ''PENDING'') None None ex_db3 = [expose_id ex_env ex_task]"
    by (simp add: list_tasks_def add_filter_def find_docs_def matches_def lookup_def
        ex_db3_def ex_task_def ex_task2_def ex_env_def)
  have c: "lookup ex_carol ''department_id'' = Some (Str '''')"
    by (simp add: lookup_def ex_carol_def)
  note e = empty_filter_spec [where env = ex_env and db = ex_db3]
  have 1: "list_users ex_env None (Some '''') ex_db3
     = [strip_user ex_env ex_alice, strip_user ex_env ex_bob, strip_user ex_env ex_carol]"
    using e [where role = None, THEN conjunct2, THEN conjunct1] u by simp
  have 2: "list_users ex_env (Some '''') (Some ''d1'') ex_db3 = [strip_user ex_env ex_alice]"
    using e [where department_id = "Some ''d1''", THEN conjunct1] d by simp
  have 3: "list_tasks ex_env (Some '''') (Some ''t1'') None ex_db3
       = [expose_id ex_env ex_task2, expose_id ex_env ex_task]"
    using e [where assigned_to = "Some ''t1''" and department_id = None,
        THEN conjunct2, THEN conjunct2, THEN conjunct1] t by simp
  have "list_tasks ex_env (Some ''PENDING'') (Some '''') (Some '''') ex_db3
       = list_tasks ex_env (Some ''PENDING'') None (Some '''') ex_db3"
    using e [where status = "Some ''PENDING''" and department_id = "Some ''''",
        THEN conjunct2, THEN conjunct2, THEN conjunct2, THEN conjunct1] by simp
  also have "\<dots> = list_tasks ex_env (Some ''PENDING'') None None ex_db3"
    using e [where status = "Some ''PENDING''" and assigned_to = None,
        THEN conjunct2, THEN conjunct2, THEN conjunct2, THEN conjunct2, THEN conjunct1] by simp
  finally have 4: "list_tasks ex_env (Some ''PENDING'') (Some '''') (Some '''') ex_db3
       = [expose_id ex_env ex_task]"
    using p by simp
  have 5: "list_tasks ex_env (Some '''') (Some '''') (Some '''') ex_db3
       = [expose_id ex_env ex_task2, expose_id ex_env ex_task]"
    using e [THEN conjunct2, THEN conjunct2, THEN conjunct2, THEN conjunct2, THEN conjunct2,
        THEN conjunct2]
    by (simp add: ex_db3_def ex_env_def)
  from 1 c 2 3 4 5 show ?thesis
    by (intro conjI)
qed

section \<open>Analytics\<close>

lemma count_all: "count_documents coll [] = int (length coll)"
  by (simp add: count_documents_def find_docs_all)

lemma count_status:
  "count_documents coll [(''status'', Str s)]
     = int (length (filter (\<lambda>t. lookup t ''status'' = Some (Str s)) coll))"
  unfolding count_documents_def find_docs_def
  by (induction coll) (simp_all add: matches_single)

text \<open>
  C5. The Analytics Overview reports the number of users, the number of tasks, and the number
  of tasks whose status is \<^verbatim>\<open>COMPLETED\<close>, \<^verbatim>\<open>IN_PROGRESS\<close> and \<^verbatim>\<open>PENDING\<close>. Its completion rate
  is the float \<^verbatim>\<open>0.0\<close> when there is no task, and otherwise the number of completed tasks
  divided by the number of tasks, the quotient then multiplied by 100.
\<close>

theorem analytics_overview_spec:
  "ov_users (analytics_overview fl db) = int (length (db ''user''))
   \<and> ov_tasks (analytics_overview fl db) = int (length (db ''task''))
   \<and> ov_completed (analytics_overview fl db)
       = int (length (filter (\<lambda>t. lookup t ''status'' = Some (Str ''COMPLETED'')) (db ''task'')))
   \<and> ov_in_progress (analytics_overview fl db)
       = int (length (filter (\<lambda>t. lookup t ''status'' = Some (Str ''IN_PROGRESS'')) (db ''task'')))
   \<and> ov_pending (analytics_overview fl db)
       = int (length (filter (\<lambda>t. lookup t ''status'' = Some (Str ''PENDING'')) (db ''task'')))
   \<and> (length (db ''task'') = 0
        \<longrightarrow> ov_completion_rate (analytics_overview fl db) = float_zero fl)
   \<and> (length (db ''task'') \<noteq> 0
        \<longrightarrow> ov_completion_rate (analytics_overview fl db)
             = times_int fl
                 (true_div fl
                    (int (length (filter (\<lambda>t. lookup t ''status'' = Some (Str ''COMPLETED''))
                                    (db ''task''))))
                    (int (length (db ''task''))))
                 100)"
  by (simp add: analytics_overview_def Let_def count_all count_status)

text \<open>
  On the store with three users and four tasks, one completed, one in progress and two
  pending, the rate is 25; on the store with two tasks and none completed it is 0; on the
  empty store it is the float zero.
\<close>

theorem analytics_overview_spec_witness:
  "length (ex_db4 ''task'') \<noteq> 0
   \<and> ov_users (analytics_overview ex_float ex_db4) = 3
   \<and> ov_tasks (analytics_overview ex_float ex_db4) = 4
   \<and> ov_completed (analytics_overview ex_float ex_db4) = 1
   \<and> ov_in_progress (analytics_overview ex_float ex_db4) = 1
   \<and> ov_pending (analytics_overview ex_float ex_db4) = 2
   \<and> ov_completion_rate (analytics_overview ex_float ex_db4) = 25
   \<and> ov_completion_rate (analytics_overview ex_float ex_db4)
       = times_int ex_float (true_div ex_float 1 4) 100
   \<and> length (ex_db3 ''task'') \<noteq> 0
   \<and> ov_completion_rate (analytics_overview ex_float ex_db3) = 0
   \<and> length ((\<lambda>c. []) ''task'' :: nat document list) = 0
   \<and> ov_tasks (analytics_overview ex_float (\<lambda>c. [] :: nat document list)) = 0
   \<and> ov_completion_rate (analytics_overview ex_float (\<lambda>c. [] :: nat document list))
       = float_zero ex_float"
proof -
  note a = analytics_overview_spec [of ex_float ex_db4]
  note b = analytics_overview_spec [of ex_float ex_db3]
  note c = analytics_overview_spec [of ex_float "\<lambda>c. [] :: nat document list"]
  have us: "ex_db4 ''user'' = [ex_alice, ex_bob, ex_carol]"
    and ts: "ex_db4 ''task'' = [ex_task, ex_task2, ex_done, ex_open]"
    and ts3: "ex_db3 ''task'' = [ex_task, ex_task2]"
    by (simp_all add: ex_db4_def ex_db3_def)
  have st: "lookup ex_task ''status'' = Some (Str ''PENDING'')"
    "lookup ex_task2 ''status'' = Some (Str ''IN_PROGRESS'')"
    "lookup ex_done ''status'' = Some (Str ''COMPLETED'')"
    "lookup ex_open ''status'' = Some (Str ''PENDING'')"
    by (simp_all add: lookup_def ex_task_def ex_task2_def ex_done_def ex_open_def)
  have n: "length (ex_db4 ''task'') \<noteq> 0"
    by (simp add: ts)
  have n3: "length (ex_db3 ''task'') \<noteq> 0"
    by (simp add: ts3)
  have 1: "ov_users (analytics_overview ex_float ex_db4) = 3"
    using a [THEN conjunct1] by (simp add: us)
  have 2: "ov_tasks (analytics_overview ex_float ex_db4) = 4"
    using a [THEN conjunct2, THEN conjunct1] by (simp add: ts)
  have 3: "ov_completed (analytics_overview ex_float ex_db4) = 1"
    using a [THEN conjunct2, THEN conjunct2, THEN conjunct1] by (simp add: ts st)
  have 4: "ov_in_progress (analytics_overview ex_float ex_db4) = 1"
    using a [THEN conjunct2, THEN conjunct2, THEN conjunct2, THEN conjunct1]
    by (simp add: ts st)
  have 5: "ov_pending (analytics_overview ex_float ex_db4) = 2"
    using a [THEN conjunct2, THEN conjunct2, THEN conjunct2, THEN conjunct2, THEN conjunct1]
    by (simp add: ts st)
  have 6: "ov_completion_rate (analytics_overview ex_float ex_db4)
       = times_int ex_float (true_div ex_float 1 4) 100"
    using a [THEN conjunct2, THEN conjunct2, THEN conjunct2, THEN conjunct2, THEN conjunct2,
        THEN conjunct2] n
    by (simp add: ts st)
  then have 7: "ov_completion_rate (analytics_overview ex_float ex_db4) = 25"
    by (simp add: ex_float_def)
  have 8: "ov_completion_rate (analytics_overview ex_float ex_db3) = 0"
    using b [THEN conjunct2, THEN conjunct2, THEN conjunct2, THEN conjunct2, THEN conjunct2,
        THEN conjunct2] n3
    by (simp add: ts3 st ex_float_def)
  have 9: "ov_tasks (analytics_overview ex_float (\<lambda>c. [] :: nat document list)) = 0"
    using c [THEN conjunct2, THEN conjunct1] by simp
  have 10: "ov_completion_rate (analytics_overview ex_float (\<lambda>c. [] :: nat document list))
       = float_zero ex_float"
    using c [THEN conjunct2, THEN conjunct2, THEN conjunct2, THEN conjunct2, THEN conjunct2,
        THEN conjunct1]
    by simp
  from n 1 2 3 4 5 7 6 n3 8 9 10 show ?thesis
    by simp
qed

section \<open>Entity validation\<close>

lemma ap_Inr_iff: "ap f x = Inr y \<longleftrightarrow> (\<exists>g a. f = Inr g \<and> x = Inr a \<and> y = g a)"
  by (auto simp: ap_def split: sum.splits)

lemma ap_err_left: "e \<in> set (errs f) \<Longrightarrow> e \<in> set (errs (ap f x))"
  by (auto simp: ap_def errs_def split: sum.splits)

lemma ap_err_right: "e \<in> set (errs x) \<Longrightarrow> e \<in> set (errs (ap f x))"
  by (auto simp: ap_def errs_def split: sum.splits)

lemma errs_Inl: "e \<in> set (errs r) \<Longrightarrow> \<exists>es. r = Inl es \<and> e \<in> set es"
  by (cases r) (simp_all add: errs_def)

lemma ge_le_outside:
  "p < lo \<or> hi < p \<Longrightarrow> \<exists>t. ([Key k], t) \<in> set (errs (ge_le k lo hi p))"
  by (auto simp: ge_le_def errs_def)

lemma ge_le_inside: "lo \<le> p \<Longrightarrow> p \<le> hi \<Longrightarrow> ge_le k lo hi p = Inr p"
  by (simp add: ge_le_def)

lemma ge_le_Inr: "ge_le k lo hi p = Inr q \<Longrightarrow> q = p \<and> lo \<le> p \<and> p \<le> hi"
  by (auto simp: ge_le_def split: if_splits)

lemma at_loc_errs:
  "(l, t) \<in> set (errs r) \<Longrightarrow> (pre @ l, t) \<in> set (errs (at_loc pre r))"
  by (cases r) (auto simp: at_loc_def errs_def)

lemma validate_items_err:
  "i < length xs \<Longrightarrow> (l, t) \<in> set (errs (TaskUpdateEntry_validate (xs ! i))) \<Longrightarrow>
   ([Key ''updates'', Index (k + i)] @ l, t) \<in> set (errs (validate_items k xs))"
proof (induction xs arbitrary: i k)
  case Nil
  then show ?case by simp
next
  case (Cons x xs)
  show ?case
  proof (cases i)
    case 0
    with Cons.prems have "(l, t) \<in> set (errs (TaskUpdateEntry_validate x))"
      by simp
    then have "([Key ''updates'', Index k] @ l, t)
        \<in> set (errs (at_loc [Key ''updates'', Index k] (TaskUpdateEntry_validate x)))"
      by (rule at_loc_errs)
    then have "([Key ''updates'', Index k] @ l, t) \<in> set (errs (validate_items k (x # xs)))"
      by (simp add: ap_err_left ap_err_right)
    with 0 show ?thesis by simp
  next
    case (Suc j)
    with Cons.prems have "j < length xs" "(l, t) \<in> set (errs (TaskUpdateEntry_validate (xs ! j)))"
      by simp_all
    then have "([Key ''updates'', Index (Suc k + j)] @ l, t) \<in> set (errs (validate_items (Suc k) xs))"
      by (rule Cons.IH)
    then have "([Key ''updates'', Index (Suc k + j)] @ l, t) \<in> set (errs (validate_items k (x # xs)))"
      by (simp add: ap_err_right)
    with Suc show ?thesis by simp
  qed
qed

lemma update_progress_err:
  "upd_progress_in uraw = Given p \<Longrightarrow> p < 0 \<or> 100 < p \<Longrightarrow>
   \<exists>t. ([Key ''progress''], t) \<in> set (errs (TaskUpdateEntry_validate uraw))"
proof -
  assume g: "upd_progress_in uraw = Given p" and o: "p < 0 \<or> 100 < p"
  from o obtain t where "([Key ''progress''], t) \<in> set (errs (ge_le ''progress'' 0 100 p))"
    using ge_le_outside by blast
  then have "([Key ''progress''], t)
      \<in> set (errs (int_optional ''progress'' 0 100 (upd_progress_in uraw)))"
    by (cases "ge_le ''progress'' 0 100 p") (simp_all add: g int_optional_def errs_def)
  then have "([Key ''progress''], t) \<in> set (errs (TaskUpdateEntry_validate uraw))"
    unfolding TaskUpdateEntry_validate_def by (intro ap_err_left ap_err_right)
  then show ?thesis ..
qed

lemma task_progress_err:
  "task_progress_in raw = Given p \<Longrightarrow> p < 0 \<or> 100 < p \<Longrightarrow>
   \<exists>t. ([Key ''progress''], t) \<in> set (errs (Task_validate raw))"
proof -
  assume g: "task_progress_in raw = Given p" and o: "p < 0 \<or> 100 < p"
  from o obtain t where "([Key ''progress''], t) \<in> set (errs (ge_le ''progress'' 0 100 p))"
    using ge_le_outside by blast
  then have "([Key ''progress''], t)
      \<in> set (errs (int_default ''progress'' 0 100 0 (task_progress_in raw)))"
    by (simp add: g int_default_def)
  then have "([Key ''progress''], t) \<in> set (errs (Task_validate raw))"
    unfolding Task_validate_def by (intro ap_err_left ap_err_right)
  then show ?thesis ..
qed

lemma task_updates_err:
  "task_updates_in raw = Given xs \<Longrightarrow> i < length xs \<Longrightarrow>
   upd_progress_in (xs ! i) = Given p \<Longrightarrow> p < 0 \<or> 100 < p \<Longrightarrow>
   \<exists>t. ([Key ''updates'', Index i, Key ''progress''], t) \<in> set (errs (Task_validate raw))"
proof -
  assume g: "task_updates_in raw = Given xs" and i: "i < length xs"
    and p: "upd_progress_in (xs ! i) = Given p" and o: "p < 0 \<or> 100 < p"
  from p o obtain t where
    "([Key ''progress''], t) \<in> set (errs (TaskUpdateEntry_validate (xs ! i)))"
    using update_progress_err by blast
  with i have "([Key ''updates'', Index (0 + i)] @ [Key ''progress''], t)
      \<in> set (errs (validate_items 0 xs))"
    by (rule validate_items_err)
  then have "([Key ''updates'', Index i, Key ''progress''], t)
      \<in> set (errs (updates_default (task_updates_in raw)))"
    by (simp add: g updates_default_def)
  then have "([Key ''updates'', Index i, Key ''progress''], t) \<in> set (errs (Task_validate raw))"
    unfolding Task_validate_def by (rule ap_err_right)
  then show ?thesis ..
qed

lemma task_progress_given:
  "Task_validate (raw\<lparr>task_progress_in := Absent\<rparr>) = Inr task \<Longrightarrow> 0 \<le> p \<Longrightarrow> p \<le> 100 \<Longrightarrow>
   Task_validate (raw\<lparr>task_progress_in := Given p\<rparr>) = Inr (task\<lparr>task_progress := p\<rparr>)"
  by (auto simp: Task_validate_def ap_Inr_iff int_default_def ge_le_inside)

lemma task_progress_absent:
  "Task_validate (raw\<lparr>task_progress_in := Absent\<rparr>) = Inr task \<Longrightarrow> task_progress task = 0"
  by (auto simp: Task_validate_def ap_Inr_iff int_default_def)

lemma task_progress_range:
  "Task_validate raw = Inr task \<Longrightarrow> 0 \<le> task_progress task \<and> task_progress task \<le> 100"
  by (cases "task_progress_in raw")
     (auto simp: Task_validate_def ap_Inr_iff int_default_def dest: ge_le_Inr)

lemma update_progress_given:
  "TaskUpdateEntry_validate (uraw\<lparr>upd_progress_in := Absent\<rparr>) = Inr upd \<Longrightarrow>
   0 \<le> p \<Longrightarrow> p \<le> 100 \<Longrightarrow>
   TaskUpdateEntry_validate (uraw\<lparr>upd_progress_in := Given p\<rparr>)
     = Inr (upd\<lparr>upd_progress := Some p\<rparr>)"
  by (auto simp: TaskUpdateEntry_validate_def ap_Inr_iff int_optional_def ge_le_inside)

lemma update_progress_range:
  "TaskUpdateEntry_validate uraw = Inr upd \<Longrightarrow> upd_progress upd = Some p \<Longrightarrow>
   0 \<le> p \<and> p \<le> 100"
  by (cases "upd_progress_in uraw")
     (auto simp: TaskUpdateEntry_validate_def ap_Inr_iff int_optional_def
        split: sum.splits dest: ge_le_Inr)

text \<open>
  C6. Validation of a Task and of a TaskUpdateEntry fails, with a violation located at
  \<^verbatim>\<open>progress\<close>, when the given progress is below 0 or above 100, also for an entry inside the
  \<^verbatim>\<open>updates\<close> of a Task. When the input is valid without a progress, it is valid with every
  progress from 0 to 100, both bounds included, and the entity holds that progress. A valid
  Task without a progress holds the progress 0. No validated entity holds a progress
  outside the range.
\<close>

theorem progress_spec:
  "(task_progress_in raw = Given p \<and> (p < 0 \<or> 100 < p)
      \<longrightarrow> (\<exists>es t. Task_validate raw = Inl es \<and> ([Key ''progress''], t) \<in> set es))
   \<and> (upd_progress_in uraw = Given p \<and> (p < 0 \<or> 100 < p)
      \<longrightarrow> (\<exists>es t. TaskUpdateEntry_validate uraw = Inl es \<and> ([Key ''progress''], t) \<in> set es))
   \<and> (task_updates_in raw = Given xs \<and> i < length xs \<and> upd_progress_in (xs ! i) = Given p
        \<and> (p < 0 \<or> 100 < p)
      \<longrightarrow> (\<exists>es t. Task_validate raw = Inl es
             \<and> ([Key ''updates'', Index i, Key ''progress''], t) \<in> set es))
   \<and> (Task_validate (raw\<lparr>task_progress_in := Absent\<rparr>) = Inr task \<and> 0 \<le> p \<and> p \<le> 100
      \<longrightarrow> Task_validate (raw\<lparr>task_progress_in := Given p\<rparr>) = Inr (task\<lparr>task_progress := p\<rparr>))
   \<and> (TaskUpdateEntry_validate (uraw\<lparr>upd_progress_in := Absent\<rparr>) = Inr upd \<and> 0 \<le> p \<and> p \<le> 100
      \<longrightarrow> TaskUpdateEntry_validate (uraw\<lparr>upd_progress_in := Given p\<rparr>)
            = Inr (upd\<lparr>upd_progress := Some p\<rparr>))
   \<and> (Task_validate (raw\<lparr>task_progress_in := Absent\<rparr>) = Inr task \<longrightarrow> task_progress task = 0)
   \<and> (Task_validate raw = Inr task \<longrightarrow> 0 \<le> task_progress task \<and> task_progress task \<le> 100)
   \<and> (TaskUpdateEntry_validate uraw = Inr upd \<and> upd_progress upd = Some p
      \<longrightarrow> 0 \<le> p \<and> p \<le> 100)"
proof (intro conjI impI)
  assume "task_progress_in raw = Given p \<and> (p < 0 \<or> 100 < p)"
  then obtain t where "([Key ''progress''], t) \<in> set (errs (Task_validate raw))"
    using task_progress_err by blast
  then show "\<exists>es t. Task_validate raw = Inl es \<and> ([Key ''progress''], t) \<in> set es"
    using errs_Inl by blast
next
  assume "upd_progress_in uraw = Given p \<and> (p < 0 \<or> 100 < p)"
  then obtain t where "([Key ''progress''], t) \<in> set (errs (TaskUpdateEntry_validate uraw))"
    using update_progress_err by blast
  then show "\<exists>es t. TaskUpdateEntry_validate uraw = Inl es \<and> ([Key ''progress''], t) \<in> set es"
    using errs_Inl by blast
next
  assume "task_updates_in raw = Given xs \<and> i < length xs \<and> upd_progress_in (xs ! i) = Given p
        \<and> (p < 0 \<or> 100 < p)"
  then obtain t where
    "([Key ''updates'', Index i, Key ''progress''], t) \<in> set (errs (Task_validate raw))"
    using task_updates_err by blast
  then show "\<exists>es t. Task_validate raw = Inl es
             \<and> ([Key ''updates'', Index i, Key ''progress''], t) \<in> set es"
    using errs_Inl by blast
next
  assume "Task_validate (raw\<lparr>task_progress_in := Absent\<rparr>) = Inr task \<and> 0 \<le> p \<and> p \<le> 100"
  then show "Task_validate (raw\<lparr>task_progress_in := Given p\<rparr>) = Inr (task\<lparr>task_progress := p\<rparr>)"
    by (simp add: task_progress_given)
next
  assume "TaskUpdateEntry_validate (uraw\<lparr>upd_progress_in := Absent\<rparr>) = Inr upd \<and> 0 \<le> p \<and> p \<le> 100"
  then show "TaskUpdateEntry_validate (uraw\<lparr>upd_progress_in := Given p\<rparr>)
            = Inr (upd\<lparr>upd_progress := Some p\<rparr>)"
    by (simp add: update_progress_given)
next
  assume "Task_validate (raw\<lparr>task_progress_in := Absent\<rparr>) = Inr task"
  then show "task_progress task = 0"
    by (rule task_progress_absent)
next
  assume "Task_validate raw = Inr task"
  then have "0 \<le> task_progress task \<and> task_progress task \<le> 100"
    by (rule task_progress_range)
  then show "0 \<le> task_progress task" "task_progress task \<le> 100"
    by simp_all
next
  assume "TaskUpdateEntry_validate uraw = Inr upd \<and> upd_progress upd = Some p"
  then have "0 \<le> p \<and> p \<le> 100"
    using update_progress_range by blast
  then show "0 \<le> p" "p \<le> 100"
    by simp_all
qed

text \<open>
  On the example bodies: the progress 101 and the progress -1 are refused for a task and
  for an update entry, each with its one violation; 0 and 100 are accepted; the task
  without a progress gets 0; an entry with the progress 200, second in the \<^verbatim>\<open>updates\<close> of a
  task, is refused at its index.
\<close>

theorem progress_spec_witness:
  "Task_validate (ex_task_raw\<lparr>task_progress_in := Given 101\<rparr>)
     = Inl [([Key ''progress''], ''less_than_equal'')]
   \<and> Task_validate (ex_task_raw\<lparr>task_progress_in := Given (- 1)\<rparr>)
       = Inl [([Key ''progress''], ''greater_than_equal'')]
   \<and> (\<exists>es t. Task_validate (ex_task_raw\<lparr>task_progress_in := Given 101\<rparr>) = Inl es
         \<and> ([Key ''progress''], t) \<in> set es)
   \<and> Task_validate (ex_task_raw\<lparr>task_progress_in := Absent\<rparr>) = Inr ex_new_task
   \<and> task_progress ex_new_task = 0
   \<and> Task_validate (ex_task_raw\<lparr>task_progress_in := Given 0\<rparr>)
       = Inr (ex_new_task\<lparr>task_progress := 0\<rparr>)
   \<and> Task_validate (ex_task_raw\<lparr>task_progress_in := Given 100\<rparr>)
       = Inr (ex_new_task\<lparr>task_progress := 100\<rparr>)
   \<and> TaskUpdateEntry_validate (ex_update_raw\<lparr>upd_progress_in := Given 101\<rparr>)
       = Inl [([Key ''progress''], ''less_than_equal'')]
   \<and> TaskUpdateEntry_validate (ex_update_raw\<lparr>upd_progress_in := Given (- 1)\<rparr>)
       = Inl [([Key ''progress''], ''greater_than_equal'')]
   \<and> (\<exists>es t. TaskUpdateEntry_validate (ex_update_raw\<lparr>upd_progress_in := Given (- 1)\<rparr>) = Inl es
         \<and> ([Key ''progress''], t) \<in> set es)
   \<and> TaskUpdateEntry_validate (ex_update_raw\<lparr>upd_progress_in := Absent\<rparr>)
       = Inr (ex_update\<lparr>upd_progress := None\<rparr>)
   \<and> TaskUpdateEntry_validate (ex_update_raw\<lparr>upd_progress_in := Given 0\<rparr>)
       = Inr (ex_update\<lparr>upd_progress := Some 0\<rparr>)
   \<and> TaskUpdateEntry_validate (ex_update_raw\<lparr>upd_progress_in := Given 100\<rparr>)
       = Inr (ex_update\<lparr>upd_progress := Some 100\<rparr>)
   \<and> Task_validate
        (ex_task_raw\<lparr>task_updates_in :=
           Given [ex_update_raw, ex_update_raw\<lparr>upd_progress_in := Given 200\<rparr>]\<rparr>)
       = Inl [([Key ''updates'', Index 1, Key ''progress''], ''less_than_equal'')]
   \<and> (\<exists>es t. Task_validate
        (ex_task_raw\<lparr>task_updates_in :=
           Given [ex_update_raw, ex_update_raw\<lparr>upd_progress_in := Given 200\<rparr>]\<rparr>) = Inl es
         \<and> ([Key ''updates'', Index 1, Key ''progress''], t) \<in> set es)"
proof -
  let ?items = "[ex_update_raw, ex_update_raw\<lparr>upd_progress_in := Given 200\<rparr>]"
  note ev = Task_validate_def TaskUpdateEntry_validate_def ap_def at_loc_def str_required_def
    optional_def literal_default_def TaskStatus_def int_default_def int_optional_def ge_le_def
    updates_default_def ex_task_raw_def ex_update_raw_def ex_new_task_def ex_update_def
  have t1: "Task_validate (ex_task_raw\<lparr>task_progress_in := Given 101\<rparr>)
     = Inl [([Key ''progress''], ''less_than_equal'')]"
    by (simp add: ev)
  have t2: "Task_validate (ex_task_raw\<lparr>task_progress_in := Given (- 1)\<rparr>)
       = Inl [([Key ''progress''], ''greater_than_equal'')]"
    by (simp add: ev)
  have t3: "\<exists>es t. Task_validate (ex_task_raw\<lparr>task_progress_in := Given 101\<rparr>) = Inl es
         \<and> ([Key ''progress''], t) \<in> set es"
    using progress_spec [where raw = "ex_task_raw\<lparr>task_progress_in := Given 101\<rparr>"
        and p = 101, THEN conjunct1]
    by simp
  have t4: "Task_validate (ex_task_raw\<lparr>task_progress_in := Absent\<rparr>) = Inr ex_new_task"
    by (simp add: ev)
  have t5: "task_progress ex_new_task = 0"
    using t4 progress_spec [where raw = ex_task_raw and task = ex_new_task,
        THEN conjunct2, THEN conjunct2, THEN conjunct2, THEN conjunct2, THEN conjunct2,
        THEN conjunct1]
    by blast
  have t6: "Task_validate (ex_task_raw\<lparr>task_progress_in := Given 0\<rparr>)
       = Inr (ex_new_task\<lparr>task_progress := 0\<rparr>)"
    using t4 progress_spec [where raw = ex_task_raw and task = ex_new_task and p = 0,
        THEN conjunct2, THEN conjunct2, THEN conjunct2, THEN conjunct1]
    by simp
  have t7: "Task_validate (ex_task_raw\<lparr>task_progress_in := Given 100\<rparr>)
       = Inr (ex_new_task\<lparr>task_progress := 100\<rparr>)"
    using t4 progress_spec [where raw = ex_task_raw and task = ex_new_task and p = 100,
        THEN conjunct2, THEN conjunct2, THEN conjunct2, THEN conjunct1]
    by simp
  have u1: "TaskUpdateEntry_validate (ex_update_raw\<lparr>upd_progress_in := Given 101\<rparr>)
       = Inl [([Key ''progress''], ''less_than_equal'')]"
    by (simp add: ev)
  have u2: "TaskUpdateEntry_validate (ex_update_raw\<lparr>upd_progress_in := Given (- 1)\<rparr>)
       = Inl [([Key ''progress''], ''greater_than_equal'')]"
    by (simp add: ev)
  have u3: "\<exists>es t. TaskUpdateEntry_validate (ex_update_raw\<lparr>upd_progress_in := Given (- 1)\<rparr>) = Inl es
         \<and> ([Key ''progress''], t) \<in> set es"
    using progress_spec [where uraw = "ex_update_raw\<lparr>upd_progress_in := Given (- 1)\<rparr>"
        and p = "- 1", THEN conjunct2, THEN conjunct1]
    by simp
  have u4: "TaskUpdateEntry_validate (ex_update_raw\<lparr>upd_progress_in := Absent\<rparr>)
       = Inr (ex_update\<lparr>upd_progress := None\<rparr>)"
    by (simp add: ev)
  have u5: "TaskUpdateEntry_validate (ex_update_raw\<lparr>upd_progress_in := Given 0\<rparr>)
       = Inr (ex_update\<lparr>upd_progress := Some 0\<rparr>)"
    using u4 progress_spec [where uraw = ex_update_raw
        and upd = "ex_update\<lparr>upd_progress := None\<rparr>" and p = 0,
        THEN conjunct2, THEN conjunct2, THEN conjunct2, THEN conjunct2, THEN conjunct1]
    by simp
  have u6: "TaskUpdateEntry_validate (ex_update_raw\<lparr>upd_progress_in := Given 100\<rparr>)
       = Inr (ex_update\<lparr>upd_progress := Some 100\<rparr>)"
    using u4 progress_spec [where uraw = ex_update_raw
        and upd = "ex_update\<lparr>upd_progress := None\<rparr>" and p = 100,
        THEN conjunct2, THEN conjunct2, THEN conjunct2, THEN conjunct2, THEN conjunct1]
    by simp
  have n1: "Task_validate (ex_task_raw\<lparr>task_updates_in := Given ?items\<rparr>)
       = Inl [([Key ''updates'', Index 1, Key ''progress''], ''less_than_equal'')]"
    by (simp add: ev)
  have n2: "\<exists>es t. Task_validate (ex_task_raw\<lparr>task_updates_in := Given ?items\<rparr>) = Inl es
         \<and> ([Key ''updates'', Index 1, Key ''progress''], t) \<in> set es"
    using progress_spec [where raw = "ex_task_raw\<lparr>task_updates_in := Given ?items\<rparr>"
        and xs = ?items and i = 1 and p = 200, THEN conjunct2, THEN conjunct2, THEN conjunct1]
    by simp
  from t1 t2 t3 t4 t5 t6 t7 u1 u2 u3 u4 u5 u6 n1 n2 show ?thesis
    by (intro conjI)
qed

lemma name_any:
  "UserRegister_validate ve (raw\<lparr>reg_name_in := Given n\<rparr>) = Inr payload \<Longrightarrow>
   UserRegister_validate ve (raw\<lparr>reg_name_in := Given m\<rparr>) = Inr (payload\<lparr>reg_name := m\<rparr>)"
  by (auto simp: UserRegister_validate_def ap_Inr_iff str_required_def)

lemma name_given:
  "UserRegister_validate ve raw = Inr payload \<Longrightarrow> reg_name_in raw = Given (reg_name payload)"
  by (cases "reg_name_in raw")
     (auto simp: UserRegister_validate_def ap_Inr_iff str_required_def)

lemma name_missing:
  "reg_name_in raw = Absent \<or> reg_name_in raw = JNull \<Longrightarrow>
   \<exists>t. ([Key ''name''], t) \<in> set (errs (UserRegister_validate ve raw))"
proof -
  assume "reg_name_in raw = Absent \<or> reg_name_in raw = JNull"
  then obtain t where "([Key ''name''], t) \<in> set (errs (str_required ''name'' (reg_name_in raw)))"
    by (auto simp: str_required_def errs_def)
  then have "([Key ''name''], t) \<in> set (errs (UserRegister_validate ve raw))"
    unfolding UserRegister_validate_def by (intro ap_err_left ap_err_right)
  then show ?thesis ..
qed

text \<open>
  The registration body with the empty string as name passes validation, and the
  registration is stored: on the store that holds Alice, the user with the empty name is
  added.
\<close>

theorem empty_name_counterexample:
  "reg_name_in ex_nameless = Given ''''
   \<and> UserRegister_validate ex_validate_email ex_nameless
       = Inr \<lparr>reg_name = '''', reg_email = ''b@x.io'', reg_password = ''pw2'',
              reg_role = ''EMPLOYEE'', reg_department_id = None\<rparr>
   \<and> post_auth_register ex_validate_email ex_env 300 301 2 ex_nameless ex_db
       = (Inr [(''id'', Str ''t2''), (''message'', Str ''Registered successfully'')],
          ex_db(''user'' :=
            [ex_alice,
             \<lparr>doc_id = 2,
              body = [(''name'', Str ''''),
                      (''email'', Str ''b@x.io''),
                      (''password_hash'', Str ''h:pw2''),
                      (''role'', Str ''EMPLOYEE''),
                      (''department_id'', Null),
                      (''created_at'', Datetime 300),
                      (''updated_at'', Datetime 301)]\<rparr>]))"
proof -
  have v: "UserRegister_validate ex_validate_email ex_nameless
       = Inr \<lparr>reg_name = '''', reg_email = ''b@x.io'', reg_password = ''pw2'',
              reg_role = ''EMPLOYEE'', reg_department_id = None\<rparr>"
    by (simp add: UserRegister_validate_def ap_def str_required_def email_required_def
        literal_default_def optional_def RoleType_def ex_nameless_def ex_register_raw_def
        ex_validate_email_def)
  have u: "ex_db ''user'' = [ex_alice]"
    by (simp add: ex_db_def)
  have f: "find_one [ex_alice] [(''email'', Str ''b@x.io'')] = None"
    by (simp add: find_one_def matches_def lookup_def ex_alice_def)
  show ?thesis
    by (simp add: v post_auth_register_def register_def get_user_by_email_def u f truthy_doc_def
        insert_one_def opt_str_def ex_env_def)
       (simp add: ex_nameless_def)
qed

text \<open>
  C8, amended. Validation of a registration constrains the name only to be present and a
  string: a body that is valid with one name is valid with every other name, the empty
  string included, and the validated entity holds the name as given; a body without a name,
  or with \<^verbatim>\<open>null\<close> as name, fails with a violation located at \<^verbatim>\<open>name\<close>. A valid registration
  with the empty name whose email is not yet stored reaches the store: the user is added
  with the empty name.
\<close>

theorem UserRegister_name_spec:
  "(UserRegister_validate ve (raw\<lparr>reg_name_in := Given n\<rparr>) = Inr payload
      \<longrightarrow> UserRegister_validate ve (raw\<lparr>reg_name_in := Given m\<rparr>) = Inr (payload\<lparr>reg_name := m\<rparr>)
          \<and> UserRegister_validate ve (raw\<lparr>reg_name_in := Given ''''\<rparr>)
              = Inr (payload\<lparr>reg_name := ''''\<rparr>))
   \<and> (UserRegister_validate ve raw = Inr payload \<longrightarrow> reg_name_in raw = Given (reg_name payload))
   \<and> (reg_name_in raw = Absent \<or> reg_name_in raw = JNull
      \<longrightarrow> (\<exists>es t. UserRegister_validate ve raw = Inl es \<and> ([Key ''name''], t) \<in> set es))
   \<and> (UserRegister_validate ve (raw\<lparr>reg_name_in := Given n\<rparr>) = Inr payload
        \<and> (\<forall>d \<in> set (db ''user''). lookup d ''email'' \<noteq> Some (Str (reg_email payload)))
      \<longrightarrow> post_auth_register ve env now1 now2 new_id (raw\<lparr>reg_name_in := Given ''''\<rparr>) db
          = (Inr [(''id'', Str (oid_str env new_id)),
                  (''message'', Str ''Registered successfully'')],
             db(''user'' := db ''user'' @
                [\<lparr>doc_id = new_id,
                  body = [(''name'', Str ''''),
                          (''email'', Str (reg_email payload)),
                          (''password_hash'', Str (pwd_hash env (reg_password payload))),
                          (''role'', Str (reg_role payload)),
                          (''department_id'', opt_str (reg_department_id payload)),
                          (''created_at'', Datetime now1),
                          (''updated_at'', Datetime now2)]\<rparr>])))"
proof (intro conjI impI)
  assume "UserRegister_validate ve (raw\<lparr>reg_name_in := Given n\<rparr>) = Inr payload"
  then show "UserRegister_validate ve (raw\<lparr>reg_name_in := Given m\<rparr>) = Inr (payload\<lparr>reg_name := m\<rparr>)"
    and "UserRegister_validate ve (raw\<lparr>reg_name_in := Given ''''\<rparr>) = Inr (payload\<lparr>reg_name := ''''\<rparr>)"
    by (rule name_any)+
next
  assume "UserRegister_validate ve raw = Inr payload"
  then show "reg_name_in raw = Given (reg_name payload)"
    by (rule name_given)
next
  assume "reg_name_in raw = Absent \<or> reg_name_in raw = JNull"
  then obtain t where "([Key ''name''], t) \<in> set (errs (UserRegister_validate ve raw))"
    using name_missing by blast
  then show "\<exists>es t. UserRegister_validate ve raw = Inl es \<and> ([Key ''name''], t) \<in> set es"
    using errs_Inl by blast
next
  assume a: "UserRegister_validate ve (raw\<lparr>reg_name_in := Given n\<rparr>) = Inr payload
        \<and> (\<forall>d \<in> set (db ''user''). lookup d ''email'' \<noteq> Some (Str (reg_email payload)))"
  then have v: "UserRegister_validate ve (raw\<lparr>reg_name_in := Given ''''\<rparr>)
      = Inr (payload\<lparr>reg_name := ''''\<rparr>)"
    using name_any [where m = "[]"] by blast
  from a have "\<not> truthy_doc (get_user_by_email db (reg_email payload))"
    by (simp add: truthy_get_user_by_email)
  then show "post_auth_register ve env now1 now2 new_id (raw\<lparr>reg_name_in := Given ''''\<rparr>) db
          = (Inr [(''id'', Str (oid_str env new_id)),
                  (''message'', Str ''Registered successfully'')],
             db(''user'' := db ''user'' @
                [\<lparr>doc_id = new_id,
                  body = [(''name'', Str ''''),
                          (''email'', Str (reg_email payload)),
                          (''password_hash'', Str (pwd_hash env (reg_password payload))),
                          (''role'', Str (reg_role payload)),
                          (''department_id'', opt_str (reg_department_id payload)),
                          (''created_at'', Datetime now1),
                          (''updated_at'', Datetime now2)]\<rparr>]))"
    by (simp add: post_auth_register_def v register_def insert_one_def)
qed

text \<open>
  On the example registration: Bob's body is valid, hence so is the body with the empty
  name, which is stored beside Alice; the body without a name is refused.
\<close>

theorem UserRegister_name_spec_witness:
  "UserRegister_validate ex_validate_email (ex_register_raw\<lparr>reg_name_in := Given ''Bob''\<rparr>)
     = Inr ex_register
   \<and> UserRegister_validate ex_validate_email (ex_register_raw\<lparr>reg_name_in := Given ''''\<rparr>)
       = Inr (ex_register\<lparr>reg_name := ''''\<rparr>)
   \<and> reg_name_in (ex_register_raw\<lparr>reg_name_in := Given ''Bob''\<rparr>) = Given (reg_name ex_register)
   \<and> (\<exists>es t. UserRegister_validate ex_validate_email (ex_register_raw\<lparr>reg_name_in := Absent\<rparr>)
                = Inl es \<and> ([Key ''name''], t) \<in> set es)
   \<and> UserRegister_validate ex_validate_email (ex_register_raw\<lparr>reg_name_in := Absent\<rparr>)
       = Inl [([Key ''name''], ''missing'')]
   \<and> lookup ex_alice ''email'' \<noteq> Some (Str (reg_email ex_register))
   \<and> post_auth_register ex_validate_email ex_env 300 301 2
        (ex_register_raw\<lparr>reg_name_in := Given ''''\<rparr>) ex_db
       = (Inr [(''id'', Str (oid_str ex_env 2)), (''message'', Str ''Registered successfully'')],
          ex_db(''user'' := ex_db ''user'' @
            [\<lparr>doc_id = 2,
              body = [(''name'', Str ''''),
                      (''email'', Str (reg_email ex_register)),
                      (''password_hash'', Str (pwd_hash ex_env (reg_password ex_register))),
                      (''role'', Str (reg_role ex_register)),
                      (''department_id'', opt_str (reg_department_id ex_register)),
                      (''created_at'', Datetime 300),
                      (''updated_at'', Datetime 301)]\<rparr>]))"
proof -
  note ev = UserRegister_validate_def ap_def str_required_def email_required_def
    literal_default_def optional_def RoleType_def ex_register_raw_def ex_register_def
    ex_validate_email_def
  have v: "UserRegister_validate ex_validate_email (ex_register_raw\<lparr>reg_name_in := Given ''Bob''\<rparr>)
     = Inr ex_register"
    by (simp add: ev)
  have 1: "UserRegister_validate ex_validate_email (ex_register_raw\<lparr>reg_name_in := Given ''''\<rparr>)
       = Inr (ex_register\<lparr>reg_name := ''''\<rparr>)"
    using v UserRegister_name_spec [where ve = ex_validate_email and raw = ex_register_raw
        and n = "''Bob''" and payload = ex_register, THEN conjunct1]
    by blast
  have 2: "reg_name_in (ex_register_raw\<lparr>reg_name_in := Given ''Bob''\<rparr>) = Given (reg_name ex_register)"
    using v UserRegister_name_spec [where ve = ex_validate_email
        and raw = "ex_register_raw\<lparr>reg_name_in := Given ''Bob''\<rparr>" and payload = ex_register,
        THEN conjunct2, THEN conjunct1]
    by blast
  have 3: "\<exists>es t. UserRegister_validate ex_validate_email (ex_register_raw\<lparr>reg_name_in := Absent\<rparr>)
                = Inl es \<and> ([Key ''name''], t) \<in> set es"
    using UserRegister_name_spec [where ve = ex_validate_email
        and raw = "ex_register_raw\<lparr>reg_name_in := Absent\<rparr>",
        THEN conjunct2, THEN conjunct2, THEN conjunct1]
    by simp
  have 4: "UserRegister_validate ex_validate_email (ex_register_raw\<lparr>reg_name_in := Absent\<rparr>)
       = Inl [([Key ''name''], ''missing'')]"
    by (simp add: ev)
  have 5: "lookup ex_alice ''email'' \<noteq> Some (Str (reg_email ex_register))"
    by (simp add: lookup_def ex_alice_def ex_register_def)
  then have free: "\<forall>d \<in> set (ex_db ''user''). lookup d ''email'' \<noteq> Some (Str (reg_email ex_register))"
    by (simp add: ex_db_def)
  have 6: "post_auth_register ex_validate_email ex_env 300 301 2
        (ex_register_raw\<lparr>reg_name_in := Given ''''\<rparr>) ex_db
       = (Inr [(''id'', Str (oid_str ex_env 2)), (''message'', Str ''Registered successfully'')],
          ex_db(''user'' := ex_db ''user'' @
            [\<lparr>doc_id = 2,
              body = [(''name'', Str ''''),
                      (''email'', Str (reg_email ex_register)),
                      (''password_hash'', Str (pwd_hash ex_env (reg_password ex_register))),
                      (''role'', Str (reg_role ex_register)),
                      (''department_id'', opt_str (reg_department_id ex_register)),
                      (''created_at'', Datetime 300),
                      (''updated_at'', Datetime 301)]\<rparr>]))"
    using v free UserRegister_name_spec [where ve = ex_validate_email and raw = ex_register_raw
        and n = "''Bob''" and payload = ex_register and db = ex_db and env = ex_env
        and ?now1.0 = 300 and ?now2.0 = 301 and new_id = 2,
        THEN conjunct2, THEN conjunct2, THEN conjunct2]
    by blast
  from v 1 2 3 4 5 6 show ?thesis
    by (intro conjI)
qed

end
